theory Spec2Isabelle
  imports Main "HOL-Library.Word"
begin

unbundle bit_operations_syntax

section \<open>goq: a job queue on a Redis list\<close>

text \<open>
  The package \<^verbatim>\<open>goq\<close> (file \<^verbatim>\<open>goq.go\<close>) pushes job payloads on a Redis list, pops them
  in a dispatch loop, hands them to workers and keeps one status record per job under a
  key derived from the payload. The package itself is small; what it does is decided by
  three libraries it calls: \<^verbatim>\<open>encoding/base32\<close>, \<^verbatim>\<open>encoding/json\<close> and the Redis client.
  Each of them is embedded below as far as \<^verbatim>\<open>goq.go\<close> uses it, followed by the functions
  of \<^verbatim>\<open>goq.go\<close> in the order of the file.

  Go strings are byte sequences; they are modelled as \<^typ>\<open>string\<close>, whose characters are
  8-bit values. \<^verbatim>\<open>uint8\<close> is \<^typ>\<open>8 word\<close>.
\<close>

subsection \<open>Bytes\<close>

type_synonym byte = "8 word"

text \<open>The conversion \<^verbatim>\<open>[]byte(s)\<close>.\<close>

definition bytes :: "string \<Rightarrow> byte list" where
  "bytes s = map (\<lambda>c. of_nat (of_char c)) s"

subsection \<open>\<^verbatim>\<open>base32.StdEncoding.EncodeToString\<close>\<close>

text \<open>
  The standard alphabet of RFC 4648 and the padding character \<^verbatim>\<open>=\<close>. The encoder takes the
  source five bytes at a time and writes eight characters for them, one for each group
  of five bits. \<open>dst0\<close> to \<open>dst7\<close> are the eight groups as the library computes them, with
  shifts and masks on \<^verbatim>\<open>byte\<close> values; in the last, shorter quantum the bytes that are
  missing contribute nothing (zero) and the characters that hold no source bit are
  replaced by the padding.
\<close>

definition encodeStd :: string where
  "encodeStd = ''ABCDEFGHIJKLMNOPQRSTUVWXYZ234567''"

definition StdPadding :: char where
  "StdPadding = CHR ''=''"

definition dst0 :: "byte \<Rightarrow> byte" where
  "dst0 s0 = drop_bit 3 s0"

definition dst1 :: "byte \<Rightarrow> byte \<Rightarrow> byte" where
  "dst1 s0 s1 = (push_bit 2 s0 AND 0x1F) OR (drop_bit 6 s1 AND 0x1F)"

definition dst2 :: "byte \<Rightarrow> byte" where
  "dst2 s1 = drop_bit 1 s1 AND 0x1F"

definition dst3 :: "byte \<Rightarrow> byte \<Rightarrow> byte" where
  "dst3 s1 s2 = (push_bit 4 s1 AND 0x1F) OR (drop_bit 4 s2 AND 0x1F)"

definition dst4 :: "byte \<Rightarrow> byte \<Rightarrow> byte" where
  "dst4 s2 s3 = (push_bit 1 s2 AND 0x1F) OR drop_bit 7 s3"

definition dst5 :: "byte \<Rightarrow> byte" where
  "dst5 s3 = drop_bit 2 s3 AND 0x1F"

definition dst6 :: "byte \<Rightarrow> byte \<Rightarrow> byte" where
  "dst6 s3 s4 = (push_bit 3 s3 AND 0x1F) OR drop_bit 5 s4"

definition dst7 :: "byte \<Rightarrow> byte" where
  "dst7 s4 = s4 AND 0x1F"

definition encode_char :: "byte \<Rightarrow> char" where
  "encode_char q = encodeStd ! unat q"

definition quantum :: "byte \<Rightarrow> byte \<Rightarrow> byte \<Rightarrow> byte \<Rightarrow> byte \<Rightarrow> string" where
  "quantum s0 s1 s2 s3 s4 =
     map encode_char
       [dst0 s0, dst1 s0 s1, dst2 s1, dst3 s1 s2, dst4 s2 s3, dst5 s3, dst6 s3 s4, dst7 s4]"

definition pad :: "nat \<Rightarrow> string \<Rightarrow> string" where
  "pad n dst = take (8 - n) dst @ replicate n StdPadding"

fun EncodeToString :: "byte list \<Rightarrow> string" where
  "EncodeToString (s0 # s1 # s2 # s3 # s4 # src) = quantum s0 s1 s2 s3 s4 @ EncodeToString src"
| "EncodeToString [s0, s1, s2, s3] = pad 1 (quantum s0 s1 s2 s3 0)"
| "EncodeToString [s0, s1, s2] = pad 3 (quantum s0 s1 s2 0 0)"
| "EncodeToString [s0, s1] = pad 4 (quantum s0 s1 0 0 0)"
| "EncodeToString [s0] = pad 6 (quantum s0 0 0 0 0)"
| "EncodeToString [] = []"

text \<open>A value that fits in five bits: an index into the alphabet.\<close>

definition quintet :: "byte \<Rightarrow> bool" where
  "quintet q = (unat q < 32)"

subsection \<open>The status record and \<^verbatim>\<open>json.Marshal\<close>\<close>

record Status =
  Code :: byte
  Progress :: byte

text \<open>
  Go errors. Only their being \<^verbatim>\<open>nil\<close> or not is ever inspected by \<^verbatim>\<open>goq.go\<close>; the one
  place that reads a message wraps it in a new error, \<^verbatim>\<open>errors.New(text + err.Error())\<close>,
  which is kept as the text and the wrapped error.
\<close>

datatype error =
    ErrorString string          \<comment> \<open>\<^verbatim>\<open>errors.New(text)\<close>\<close>
  | Wrapped string error        \<comment> \<open>\<^verbatim>\<open>errors.New(text + err.Error())\<close>\<close>
  | redis_Nil                   \<comment> \<open>\<^verbatim>\<open>redis.Nil\<close>: the key does not exist\<close>
  | RedisError string           \<comment> \<open>an error reply of the server, or a failed round trip\<close>
  | SyntaxError                 \<comment> \<open>\<^verbatim>\<open>*json.SyntaxError\<close>\<close>
  | UnmarshalTypeError          \<comment> \<open>\<^verbatim>\<open>*json.UnmarshalTypeError\<close>\<close>
  | InvalidUnmarshalError       \<comment> \<open>\<^verbatim>\<open>*json.InvalidUnmarshalError\<close>: the target is a nil pointer\<close>

text \<open>Unsigned integers are written in decimal (\<^verbatim>\<open>strconv.AppendUint\<close>, base 10).\<close>

definition digit_char :: "nat \<Rightarrow> char" where
  "digit_char d = char_of (48 + d)"

fun FormatUint :: "nat \<Rightarrow> string" where
  "FormatUint n = (if n < 10 then [digit_char n] else FormatUint (n div 10) @ [digit_char (n mod 10)])"

declare FormatUint.simps [simp del]

text \<open>
  \<^verbatim>\<open>json.Marshal\<close> of a \<^verbatim>\<open>*Status\<close>: an object with the two exported fields under their Go
  names, in declaration order, without white space. It cannot fail for this type; the
  error result is kept because the callers test it.
\<close>

definition Marshal :: "Status \<Rightarrow> string \<times> error option" where
  \<open>Marshal v =
     (''{"Code":'' @ FormatUint (unat (Code v)) @ '',"Progress":'' @ FormatUint (unat (Progress v)) @ ''}'',
      None)\<close>

subsection \<open>\<^verbatim>\<open>json.Unmarshal\<close> into a \<^verbatim>\<open>*Status\<close>\<close>

text \<open>
  \<^verbatim>\<open>json.Unmarshal\<close> first checks that the whole input is one JSON text (\<^verbatim>\<open>checkValid\<close>) and
  only then stores into the target. The check is modelled by a lexer that reads the
  input character by character, and a parser that reads the tokens with a stack of the
  arrays and objects that are open; both are structurally recursive, so they are total.
  The stack is not bounded: the limit on the depth of nesting (10000) that later versions
  of the library put on the scanner is not modelled, and no status record comes near it.
\<close>

datatype json =
    JNull
  | JBool bool
  | JNumber string              \<comment> \<open>the literal as written\<close>
  | JString string              \<comment> \<open>the content, escapes decoded\<close>
  | JArray "json list"
  | JObject "(string \<times> json) list"

datatype token =
    LBrace | RBrace | LBracket | RBracket | Colon | Comma
  | TString string | TNumber string | TTrue | TFalse | TNull

definition is_space :: "char \<Rightarrow> bool" where
  "is_space c = (c = CHR 0x20 \<or> c = CHR 0x09 \<or> c = CHR 0x0D \<or> c = CHR 0x0A)"

definition is_digit :: "char \<Rightarrow> bool" where
  "is_digit c = (48 \<le> (of_char c :: nat) \<and> (of_char c :: nat) \<le> 57)"

definition is_letter :: "char \<Rightarrow> bool" where
  "is_letter c = ((97 \<le> (of_char c :: nat) \<and> (of_char c :: nat) \<le> 122)
                  \<or> (65 \<le> (of_char c :: nat) \<and> (of_char c :: nat) \<le> 90))"

text \<open>
  The characters of numbers and of the literals \<^verbatim>\<open>true\<close>, \<^verbatim>\<open>false\<close>, \<^verbatim>\<open>null\<close>. In a JSON text
  such a token is followed by white space, a comma, a closing bracket or the end, none
  of which is one of these characters, so the lexer reads the longest run of them and
  then checks the run as a whole.
\<close>

definition is_word_char :: "char \<Rightarrow> bool" where
  "is_word_char c = (is_digit c \<or> is_letter c \<or> c = CHR ''-'' \<or> c = CHR ''+'' \<or> c = CHR ''.'')"

text \<open>The number grammar: \<^verbatim>\<open>-? (0 | [1-9][0-9]*) (. [0-9]+)? ([eE] [+-]? [0-9]+)?\<close>.\<close>

definition valid_exp :: "string \<Rightarrow> bool" where
  "valid_exp s =
     (case s of
        [] \<Rightarrow> True
      | c # r \<Rightarrow>
          (c = CHR ''e'' \<or> c = CHR ''E'') \<and>
          (let ds = (case r of [] \<Rightarrow> [] | x # t \<Rightarrow> if x = CHR ''+'' \<or> x = CHR ''-'' then t else r)
           in ds \<noteq> [] \<and> list_all is_digit ds))"

definition valid_frac :: "string \<Rightarrow> bool" where
  "valid_frac s =
     (case s of
        [] \<Rightarrow> True
      | c # r \<Rightarrow>
          if c = CHR ''.'' then takeWhile is_digit r \<noteq> [] \<and> valid_exp (dropWhile is_digit r)
          else valid_exp s)"

definition valid_int :: "string \<Rightarrow> bool" where
  "valid_int s =
     (case s of
        [] \<Rightarrow> False
      | c # r \<Rightarrow>
          if c = CHR ''0'' then valid_frac r
          else if is_digit c then valid_frac (dropWhile is_digit r)
          else False)"

definition valid_number :: "string \<Rightarrow> bool" where
  "valid_number s = (case s of [] \<Rightarrow> False | c # r \<Rightarrow> if c = CHR ''-'' then valid_int r else valid_int s)"

definition finish_word :: "string \<Rightarrow> token option" where
  "finish_word w =
     (if w = ''true'' then Some TTrue
      else if w = ''false'' then Some TFalse
      else if w = ''null'' then Some TNull
      else if valid_number w then Some (TNumber w)
      else None)"

text \<open>
  String escapes. \<^verbatim>\<open>\uXXXX\<close> is decoded to the UTF-8 bytes of the code point. An escape
  in the surrogate range is decoded to U+FFFD; the library joins a valid pair of them
  into one code point beyond U+FFFF instead. The decoded strings are only compared with
  the field names of \<^verbatim>\<open>Status\<close>, which neither result can equal.
\<close>

definition unescape :: "char \<Rightarrow> char option" where
  "unescape c =
     (if c = CHR 0x22 \<or> c = CHR 0x5C \<or> c = CHR ''/'' then Some c
      else if c = CHR ''b'' then Some (CHR 0x08)
      else if c = CHR ''f'' then Some (CHR 0x0C)
      else if c = CHR ''n'' then Some (CHR 0x0A)
      else if c = CHR ''r'' then Some (CHR 0x0D)
      else if c = CHR ''t'' then Some (CHR 0x09)
      else None)"

definition hex_digit :: "char \<Rightarrow> nat option" where
  "hex_digit c =
     (let n = (of_char c :: nat) in
      if 48 \<le> n \<and> n \<le> 57 then Some (n - 48)
      else if 97 \<le> n \<and> n \<le> 102 then Some (n - 87)
      else if 65 \<le> n \<and> n \<le> 70 then Some (n - 55)
      else None)"

definition utf8 :: "nat \<Rightarrow> string" where
  "utf8 r =
     (let r = (if 0xD800 \<le> r \<and> r \<le> 0xDFFF then 0xFFFD else r) in
      if r < 0x80 then [char_of r]
      else if r < 0x800 then [char_of (0xC0 + r div 64), char_of (0x80 + r mod 64)]
      else [char_of (0xE0 + r div 4096), char_of (0x80 + (r div 64) mod 64), char_of (0x80 + r mod 64)])"

datatype lex_mode =
    Idle                        \<comment> \<open>between tokens\<close>
  | InWord string               \<comment> \<open>in a number or literal, with the characters read\<close>
  | InString string             \<comment> \<open>in a string, with the content read\<close>
  | InEscape string             \<comment> \<open>after a backslash\<close>
  | InUnicode string nat nat    \<comment> \<open>in \<^verbatim>\<open>\u\<close>: content, hex digits read, their value\<close>

definition lex_idle :: "token list \<Rightarrow> char \<Rightarrow> (token list \<times> lex_mode) option" where
  "lex_idle ts c =
     (if is_space c then Some (ts, Idle)
      else if c = CHR ''{'' then Some (ts @ [LBrace], Idle)
      else if c = CHR ''}'' then Some (ts @ [RBrace], Idle)
      else if c = CHR ''['' then Some (ts @ [LBracket], Idle)
      else if c = CHR '']'' then Some (ts @ [RBracket], Idle)
      else if c = CHR '':'' then Some (ts @ [Colon], Idle)
      else if c = CHR '','' then Some (ts @ [Comma], Idle)
      else if c = CHR 0x22 then Some (ts, InString [])
      else if is_word_char c then Some (ts, InWord [c])
      else None)"

fun lex_char :: "lex_mode \<Rightarrow> token list \<Rightarrow> char \<Rightarrow> (token list \<times> lex_mode) option" where
  "lex_char Idle ts c = lex_idle ts c"
| "lex_char (InWord w) ts c =
     (if is_word_char c then Some (ts, InWord (w @ [c]))
      else case finish_word w of None \<Rightarrow> None | Some t \<Rightarrow> lex_idle (ts @ [t]) c)"
| "lex_char (InString s) ts c =
     (if c = CHR 0x22 then Some (ts @ [TString s], Idle)
      else if c = CHR 0x5C then Some (ts, InEscape s)
      else if (of_char c :: nat) < 0x20 then None
      else Some (ts, InString (s @ [c])))"
| "lex_char (InEscape s) ts c =
     (if c = CHR ''u'' then Some (ts, InUnicode s 0 0)
      else case unescape c of None \<Rightarrow> None | Some d \<Rightarrow> Some (ts, InString (s @ [d])))"
| "lex_char (InUnicode s k r) ts c =
     (case hex_digit c of
        None \<Rightarrow> None
      | Some h \<Rightarrow>
          if k = 3 then Some (ts, InString (s @ utf8 (16 * r + h)))
          else Some (ts, InUnicode s (k + 1) (16 * r + h)))"

fun lex_from :: "lex_mode \<Rightarrow> token list \<Rightarrow> string \<Rightarrow> token list option" where
  "lex_from Idle ts [] = Some ts"
| "lex_from (InWord w) ts [] = (case finish_word w of None \<Rightarrow> None | Some t \<Rightarrow> Some (ts @ [t]))"
| "lex_from m ts [] = None"
| "lex_from m ts (c # cs) =
     (case lex_char m ts c of None \<Rightarrow> None | Some (ts', m') \<Rightarrow> lex_from m' ts' cs)"

definition lex :: "string \<Rightarrow> token list option" where
  "lex s = lex_from Idle [] s"

text \<open>
  The parser. A frame is an array or object that is still open; \<open>InMember\<close> is an object
  whose next key has been read.
\<close>

datatype frame =
    InArray "json list"
  | InObject "(string \<times> json) list"
  | InMember "(string \<times> json) list" string

datatype parse_mode =
    BeginValue                  \<comment> \<open>a value must follow\<close>
  | BeginValueOrEnd             \<comment> \<open>after \<^verbatim>\<open>[\<close>\<close>
  | BeginKey                    \<comment> \<open>after a comma in an object\<close>
  | BeginKeyOrEnd               \<comment> \<open>after \<^verbatim>\<open>{\<close>\<close>
  | AfterKey                    \<comment> \<open>a colon must follow\<close>
  | AfterValue                  \<comment> \<open>in an array or object, after a value\<close>
  | Finished json               \<comment> \<open>the top-level value is complete\<close>

fun complete :: "json \<Rightarrow> frame list \<Rightarrow> (parse_mode \<times> frame list) option" where
  "complete v [] = Some (Finished v, [])"
| "complete v (InArray xs # st) = Some (AfterValue, InArray (xs @ [v]) # st)"
| "complete v (InMember kvs k # st) = Some (AfterValue, InObject (kvs @ [(k, v)]) # st)"
| "complete v (InObject kvs # st) = None"

fun begin_value :: "frame list \<Rightarrow> token \<Rightarrow> (parse_mode \<times> frame list) option" where
  "begin_value st (TString s) = complete (JString s) st"
| "begin_value st (TNumber n) = complete (JNumber n) st"
| "begin_value st TTrue = complete (JBool True) st"
| "begin_value st TFalse = complete (JBool False) st"
| "begin_value st TNull = complete JNull st"
| "begin_value st LBrace = Some (BeginKeyOrEnd, InObject [] # st)"
| "begin_value st LBracket = Some (BeginValueOrEnd, InArray [] # st)"
| "begin_value st t = None"

fun end_array :: "frame list \<Rightarrow> (parse_mode \<times> frame list) option" where
  "end_array (InArray xs # st) = complete (JArray xs) st"
| "end_array st = None"

fun end_object :: "frame list \<Rightarrow> (parse_mode \<times> frame list) option" where
  "end_object (InObject kvs # st) = complete (JObject kvs) st"
| "end_object st = None"

fun begin_key :: "frame list \<Rightarrow> token \<Rightarrow> (parse_mode \<times> frame list) option" where
  "begin_key (InObject kvs # st) (TString k) = Some (AfterKey, InMember kvs k # st)"
| "begin_key st t = None"

fun after_value :: "frame list \<Rightarrow> token \<Rightarrow> (parse_mode \<times> frame list) option" where
  "after_value (InArray xs # st) Comma = Some (BeginValue, InArray xs # st)"
| "after_value (InObject kvs # st) Comma = Some (BeginKey, InObject kvs # st)"
| "after_value st RBracket = end_array st"
| "after_value st RBrace = end_object st"
| "after_value st t = None"

fun parse_token :: "parse_mode \<Rightarrow> frame list \<Rightarrow> token \<Rightarrow> (parse_mode \<times> frame list) option" where
  "parse_token BeginValue st t = begin_value st t"
| "parse_token BeginValueOrEnd st t = (if t = RBracket then end_array st else begin_value st t)"
| "parse_token BeginKey st t = begin_key st t"
| "parse_token BeginKeyOrEnd st t = (if t = RBrace then end_object st else begin_key st t)"
| "parse_token AfterKey st t = (if t = Colon then Some (BeginValue, st) else None)"
| "parse_token AfterValue st t = after_value st t"
| "parse_token (Finished v) st t = None"

fun parse_from :: "parse_mode \<Rightarrow> frame list \<Rightarrow> token list \<Rightarrow> json option" where
  "parse_from (Finished v) st [] = Some v"
| "parse_from m st [] = None"
| "parse_from m st (t # ts) =
     (case parse_token m st t of None \<Rightarrow> None | Some (m', st') \<Rightarrow> parse_from m' st' ts)"

definition parse_json :: "string \<Rightarrow> json option" where
  "parse_json s = (case lex s of None \<Rightarrow> None | Some ts \<Rightarrow> parse_from BeginValue [] ts)"


text \<open>
  Storing into the struct. A key selects a field when it equals the field's name up to
  case (the library's \<^verbatim>\<open>equalFold\<close>: ASCII letters irrespective of case, and the two
  code points U+017F and U+212A taken for \<^verbatim>\<open>s\<close> and \<^verbatim>\<open>k\<close>); other keys are skipped.
\<close>

fun foldName :: "string \<Rightarrow> string" where
  "foldName [] = []"
| "foldName (c # cs) =
     (if c = CHR 0xC5 \<and> take 1 cs = [CHR 0xBF] then CHR ''S'' # foldName (drop 1 cs)
      else if c = CHR 0xE2 \<and> take 2 cs = [CHR 0x84, CHR 0xAA] then CHR ''K'' # foldName (drop 2 cs)
      else if 97 \<le> (of_char c :: nat) \<and> (of_char c :: nat) \<le> 122
        then char_of ((of_char c :: nat) - 32) # foldName cs
      else c # foldName cs)"

text \<open>
  \<^verbatim>\<open>strconv.ParseUint(s, 10, 64)\<close> on a JSON number literal, followed by the overflow
  check for \<^verbatim>\<open>uint8\<close>: the literal must consist of digits only and denote a value
  below 256.
\<close>

definition digit_value :: "char \<Rightarrow> nat" where
  "digit_value c = (of_char c :: nat) - 48"

definition ParseUint :: "string \<Rightarrow> nat option" where
  "ParseUint s =
     (if s \<noteq> [] \<and> list_all is_digit s then Some (foldl (\<lambda>a c. 10 * a + digit_value c) 0 s)
      else None)"

definition store_uint8 :: "json \<Rightarrow> byte \<Rightarrow> error option \<times> byte" where
  "store_uint8 v old =
     (case v of
        JNumber s \<Rightarrow>
          (case ParseUint s of
             None \<Rightarrow> (Some UnmarshalTypeError, old)
           | Some n \<Rightarrow> if n < 256 then (None, of_nat n) else (Some UnmarshalTypeError, old))
      | JNull \<Rightarrow> (None, old)
      | _ \<Rightarrow> (Some UnmarshalTypeError, old))"

text \<open>The first error is the one reported (\<^verbatim>\<open>saveError\<close>); decoding goes on after it.\<close>

definition saveError :: "error option \<Rightarrow> error option \<Rightarrow> error option" where
  "saveError saved err = (case saved of None \<Rightarrow> err | Some e \<Rightarrow> Some e)"

fun store_member :: "error option \<times> Status \<Rightarrow> string \<times> json \<Rightarrow> error option \<times> Status" where
  "store_member (saved, st) (key, v) =
     (if foldName key = foldName ''Code''
        then (case store_uint8 v (Code st) of (err, c) \<Rightarrow> (saveError saved err, st\<lparr>Code := c\<rparr>))
      else if foldName key = foldName ''Progress''
        then (case store_uint8 v (Progress st) of (err, p) \<Rightarrow> (saveError saved err, st\<lparr>Progress := p\<rparr>))
      else (saved, st))"

definition store_value :: "json \<Rightarrow> Status \<Rightarrow> error option \<times> Status" where
  "store_value v st =
     (case v of
        JObject kvs \<Rightarrow> foldl store_member (None, st) kvs
      | JNull \<Rightarrow> (None, st)
      | _ \<Rightarrow> (Some UnmarshalTypeError, st))"

text \<open>
  \<^verbatim>\<open>json.Unmarshal(data, v)\<close> for \<open>v\<close> of type \<^verbatim>\<open>*Status\<close>; \<open>None\<close> is the nil pointer. The
  result is the error and the struct the pointer refers to afterwards.
\<close>

definition Unmarshal :: "string \<Rightarrow> Status option \<Rightarrow> error option \<times> Status option" where
  "Unmarshal data v =
     (case parse_json data of
        None \<Rightarrow> (Some SyntaxError, v)
      | Some j \<Rightarrow>
          (case v of
             None \<Rightarrow> (Some InvalidUnmarshalError, None)
           | Some st \<Rightarrow> (case store_value j st of (err, st') \<Rightarrow> (err, Some st'))))"

subsection \<open>The Redis server and client\<close>

text \<open>
  A Redis database is one key space: a key holds a string or a list. The commands that
  \<^verbatim>\<open>goq.go\<close> sends are \<^verbatim>\<open>RPUSH\<close>, \<^verbatim>\<open>LLEN\<close>, \<^verbatim>\<open>BLPOP\<close> (on the queue) and \<^verbatim>\<open>GET\<close>, \<^verbatim>\<open>SET\<close> (on the
  status keys). A list command on a key that holds a string, and \<^verbatim>\<open>GET\<close> on a key that
  holds a list, are answered with the error \<^verbatim>\<open>WRONGTYPE\<close>; \<^verbatim>\<open>SET\<close> replaces whatever the key
  holds; a list that becomes empty is removed.

  Whether a round trip succeeds is decided outside the program (network, time-outs).
  The state therefore carries the outcome of the round trips still to come: \<open>faults\<close>
  holds, for each next command, the way its round trip fails, or \<open>None\<close>; an empty list
  means no failure. A round trip fails in one of two ways, and the client sees the same
  error in both: the command never reaches the server (\<open>NotDelivered\<close>), which leaves the
  database as it was, or the server executes the command and the reply does not arrive
  in time (\<open>ReplyLost\<close>), which changes the database as the command does. Each command is
  one round trip: the client is taken not to retry (\<^verbatim>\<open>MaxRetries\<close> is \<open>0\<close> unless set). \<open>sent\<close>
  is the log of the commands issued.
\<close>

datatype rvalue = RString string | RList "string list"

datatype command =
    RPUSH string string
  | LLEN string
  | BLPOP string
  | GET string
  | SET string string

datatype fault = NotDelivered string | ReplyLost string

record redis =
  db :: "string \<rightharpoonup> rvalue"
  faults :: "fault option list"
  sent :: "command list"

definition WRONGTYPE :: error where
  "WRONGTYPE = RedisError ''WRONGTYPE Operation against a key holding the wrong kind of value''"

text \<open>The error that the client returns for a failed round trip.\<close>

fun fault_error :: "fault \<Rightarrow> error" where
  "fault_error (NotDelivered e) = RedisError e"
| "fault_error (ReplyLost e) = RedisError e"

definition next_fault :: "redis \<Rightarrow> fault option" where
  "next_fault r = (case faults r of [] \<Rightarrow> None | f # fs \<Rightarrow> f)"

definition roundtrip :: "command \<Rightarrow> redis \<Rightarrow> fault option \<times> redis" where
  "roundtrip cmd r = (next_fault r, r\<lparr>faults := drop 1 (faults r), sent := sent r @ [cmd]\<rparr>)"

text \<open>
  What the server does with the two commands that write. \<^verbatim>\<open>RPUSH\<close> replies with the new
  length of the list.
\<close>

definition rpush :: "string \<Rightarrow> string \<Rightarrow> (string \<rightharpoonup> rvalue) \<Rightarrow> (error + int) \<times> (string \<rightharpoonup> rvalue)" where
  "rpush key v d =
     (case d key of
        None \<Rightarrow> (Inr 1, d(key \<mapsto> RList [v]))
      | Some (RList xs) \<Rightarrow> (Inr (int (length xs) + 1), d(key \<mapsto> RList (xs @ [v])))
      | Some (RString x) \<Rightarrow> (Inl WRONGTYPE, d))"

definition set_key :: "string \<Rightarrow> string \<Rightarrow> (string \<rightharpoonup> rvalue) \<Rightarrow> (string \<rightharpoonup> rvalue)" where
  "set_key key v d = d(key \<mapsto> RString v)"

text \<open>
  \<^verbatim>\<open>BLPOP\<close> with time-out \<open>0\<close> waits until the list has an element; the reply is the pair of
  the key and the element. \<open>Waiting\<close> is the command that has not been answered: the list
  is empty, and only another client can end the wait.
\<close>

datatype 'a blocking = Reply 'a | Waiting

definition blpop :: "string \<Rightarrow> (string \<rightharpoonup> rvalue) \<Rightarrow> (error + string list) blocking \<times> (string \<rightharpoonup> rvalue)" where
  "blpop key d =
     (case d key of
        None \<Rightarrow> (Waiting, d)
      | Some (RList []) \<Rightarrow> (Waiting, d)
      | Some (RList [x]) \<Rightarrow> (Reply (Inr [key, x]), d(key := None))
      | Some (RList (x # xs)) \<Rightarrow> (Reply (Inr [key, x]), d(key \<mapsto> RList xs))
      | Some (RString x) \<Rightarrow> (Reply (Inl WRONGTYPE), d))"

text \<open>\<^verbatim>\<open>client.RPush(key, value)\<close>.\<close>

definition RPush :: "string \<Rightarrow> string \<Rightarrow> redis \<Rightarrow> (error + int) \<times> redis" where
  "RPush key v r =
     (case roundtrip (RPUSH key v) r of
        (None, r') \<Rightarrow> (fst (rpush key v (db r')), r'\<lparr>db := snd (rpush key v (db r'))\<rparr>)
      | (Some (NotDelivered e), r') \<Rightarrow> (Inl (RedisError e), r')
      | (Some (ReplyLost e), r') \<Rightarrow> (Inl (RedisError e), r'\<lparr>db := snd (rpush key v (db r'))\<rparr>))"

text \<open>\<^verbatim>\<open>client.LLen(key)\<close>: a key that does not exist is an empty list.\<close>

definition LLen :: "string \<Rightarrow> redis \<Rightarrow> (error + int) \<times> redis" where
  "LLen key r =
     (case roundtrip (LLEN key) r of
        (Some f, r') \<Rightarrow> (Inl (fault_error f), r')
      | (None, r') \<Rightarrow>
          (case db r' key of
             None \<Rightarrow> (Inr 0, r')
           | Some (RList xs) \<Rightarrow> (Inr (int (length xs)), r')
           | Some (RString x) \<Rightarrow> (Inl WRONGTYPE, r')))"

text \<open>\<^verbatim>\<open>client.Get(key)\<close>: a key that does not exist is the error \<^verbatim>\<open>redis.Nil\<close>.\<close>

definition Get :: "string \<Rightarrow> redis \<Rightarrow> (error + string) \<times> redis" where
  "Get key r =
     (case roundtrip (GET key) r of
        (Some f, r') \<Rightarrow> (Inl (fault_error f), r')
      | (None, r') \<Rightarrow>
          (case db r' key of
             None \<Rightarrow> (Inl redis_Nil, r')
           | Some (RString x) \<Rightarrow> (Inr x, r')
           | Some (RList xs) \<Rightarrow> (Inl WRONGTYPE, r')))"

text \<open>\<^verbatim>\<open>client.Set(key, value, 0)\<close>: expiration \<open>0\<close> is none, and is the only one used.\<close>

definition Set :: "string \<Rightarrow> string \<Rightarrow> redis \<Rightarrow> error option \<times> redis" where
  "Set key v r =
     (case roundtrip (SET key v) r of
        (None, r') \<Rightarrow> (None, r'\<lparr>db := set_key key v (db r')\<rparr>)
      | (Some (NotDelivered e), r') \<Rightarrow> (Some (RedisError e), r')
      | (Some (ReplyLost e), r') \<Rightarrow> (Some (RedisError e), r'\<lparr>db := set_key key v (db r')\<rparr>))"

text \<open>
  \<^verbatim>\<open>client.BLPop(0, key)\<close>. When the reply is lost, the element that the server has removed
  from the list is lost with it.
\<close>

definition BLPop :: "string \<Rightarrow> redis \<Rightarrow> (error + string list) blocking \<times> redis" where
  "BLPop key r =
     (case roundtrip (BLPOP key) r of
        (None, r') \<Rightarrow> (fst (blpop key (db r')), r'\<lparr>db := snd (blpop key (db r'))\<rparr>)
      | (Some (NotDelivered e), r') \<Rightarrow> (Reply (Inl (RedisError e)), r')
      | (Some (ReplyLost e), r') \<Rightarrow> (Reply (Inl (RedisError e)), r'\<lparr>db := snd (blpop key (db r'))\<rparr>))"

subsection \<open>\<^verbatim>\<open>goq.go\<close>: types and package state\<close>

definition JOB_STATUS_PREFIX :: string where
  "JOB_STATUS_PREFIX = ''goq:queue:job:status:''"

record ConnectionOptions =
  Addr :: string
  Password :: string
  DB :: int
  MaxRetries :: int
  DialTimeout :: int
  ReadTimeout :: int
  WriteTimeout :: int
  PoolSize :: int
  PoolTimeout :: int
  IdleTimeout :: int

record Job =
  ID :: string
  JSON :: string
  Status :: "Status option"     \<comment> \<open>\<^verbatim>\<open>*Status\<close>; \<open>None\<close> is the nil pointer\<close>

text \<open>
  The two callbacks are code of the user. The model records every call with its
  argument in \<open>calls\<close> and then lets the callback act on the state; a callback is taken
  to return.
\<close>

datatype call = ProcessorCall Job | ErrorHandlerCall error

text \<open>
  The state of the process and its server: the package variable \<^verbatim>\<open>client\<close> (\<open>None\<close> is
  the nil pointer; the client is represented by the options it was created with), the
  Redis server it talks to, the number of worker goroutines started, and the calls of
  the callbacks so far.
\<close>

record world =
  client :: "ConnectionOptions option"
  server :: redis
  workers :: nat
  calls :: "call list"

type_synonym Processor = "Job \<Rightarrow> world \<Rightarrow> world"

type_synonym ErrorHandler = "error \<Rightarrow> world \<Rightarrow> world"

record Options =
  Connection :: "ConnectionOptions option"
  Concurrency :: byte
  QueueName :: string
  Processor :: Processor
  ErrorHandler :: ErrorHandler

text \<open>\<open>jobChannel\<close> holds the payloads buffered in the channel, oldest first.\<close>

record Queue =
  jobChannel :: "string list"
  concurrency :: byte
  queueName :: string
  processor :: Processor
  errorHandler :: ErrorHandler

record QueueStatus =
  QueueLength :: int

text \<open>
  A call either returns or panics. The panics of the model are the nil pointer
  dereferences of the code.
\<close>

datatype 'a outcome = Return 'a | Panic

definition call_errorHandler :: "ErrorHandler \<Rightarrow> error \<Rightarrow> world \<Rightarrow> world" where
  "call_errorHandler h e w = h e (w\<lparr>calls := calls w @ [ErrorHandlerCall e]\<rparr>)"

definition call_processor :: "Processor \<Rightarrow> Job \<Rightarrow> world \<Rightarrow> world" where
  "call_processor p j w = p j (w\<lparr>calls := calls w @ [ProcessorCall j]\<rparr>)"

subsection \<open>\<^verbatim>\<open>New\<close>, \<^verbatim>\<open>QueueStatus\<close>, \<^verbatim>\<open>Enqueue\<close>\<close>

definition channel_capacity :: nat where
  "channel_capacity = 1000"

definition New :: "Options \<Rightarrow> world \<Rightarrow> Queue outcome \<times> world" where
  "New opt w =
     (let q = \<lparr>jobChannel = [], concurrency = Concurrency opt, queueName = QueueName opt,
                processor = Processor opt, errorHandler = ErrorHandler opt\<rparr>
      in if client w = None then
           (case Connection opt of
              None \<Rightarrow> (Panic, w)
            | Some redisOpt \<Rightarrow> (Return q, w\<lparr>client := Some redisOpt\<rparr>))
         else (Return q, w))"

definition QueueStatus :: "Queue \<Rightarrow> world \<Rightarrow> (QueueStatus option \<times> error option) \<times> world" where
  "QueueStatus q w =
     (if client w \<noteq> None then
        (case LLen (queueName q) (server w) of
           (Inl err, r) \<Rightarrow> ((None, Some err), w\<lparr>server := r\<rparr>)
         | (Inr queueLen, r) \<Rightarrow> ((Some \<lparr>QueueLength = queueLen\<rparr>, None), w\<lparr>server := r\<rparr>))
      else ((None, Some (ErrorString ''Failed to queue status: no initialized client'')), w))"

definition Enqueue :: "Queue \<Rightarrow> string \<Rightarrow> world \<Rightarrow> (string \<times> error option) outcome \<times> world" where
  "Enqueue q jobJSON w =
     (case client w of
        None \<Rightarrow> (Panic, w)
      | Some c \<Rightarrow>
          (case RPush (queueName q) jobJSON (server w) of
             (Inl err, r) \<Rightarrow> (Return ([], Some err), w\<lparr>server := r\<rparr>)
           | (Inr n, r) \<Rightarrow>
               (case Marshal \<lparr>Code = 0, Progress = 0\<rparr> of
                  (statusJSON, Some err) \<Rightarrow> (Return ([], Some err), w\<lparr>server := r\<rparr>)
                | (statusJSON, None) \<Rightarrow>
                    (let id = EncodeToString (bytes jobJSON) in
                     case Set (JOB_STATUS_PREFIX @ id) statusJSON r of
                       (Some err, r') \<Rightarrow> (Return ([], Some err), w\<lparr>server := r'\<rparr>)
                     | (None, r') \<Rightarrow> (Return (id, None), w\<lparr>server := r'\<rparr>)))))"

subsection \<open>\<^verbatim>\<open>Run\<close> and \<^verbatim>\<open>work\<close>\<close>

text \<open>
  The loop of \<^verbatim>\<open>Run\<close> has no condition, and its body contains \<^verbatim>\<open>continue\<close> but neither \<^verbatim>\<open>break\<close>
  nor \<^verbatim>\<open>return\<close>. After one pass through the body the dispatcher is at the top of the loop
  again, with a new state; or it is in the blocking pop, which the server has not
  answered; or it is in the send on the channel with the element it has popped, because
  the buffer is full; or it has panicked.
\<close>

datatype dispatch =
    NextPass Queue world
  | WaitingForPop Queue world
  | WaitingToSend string Queue world
  | DispatchPanics

definition Run_body :: "Queue \<Rightarrow> world \<Rightarrow> dispatch" where
  "Run_body q w =
     (case client w of
        None \<Rightarrow> DispatchPanics
      | Some c \<Rightarrow>
          (case BLPop (queueName q) (server w) of
             (Waiting, r) \<Rightarrow> WaitingForPop q (w\<lparr>server := r\<rparr>)
           | (Reply (Inl err), r) \<Rightarrow> NextPass q (call_errorHandler (errorHandler q) err (w\<lparr>server := r\<rparr>))
           | (Reply (Inr jobJSONSlice), r) \<Rightarrow>
               (if length jobJSONSlice < 2 then DispatchPanics
                else if length (jobChannel q) < channel_capacity
                  then NextPass (q\<lparr>jobChannel := jobChannel q @ [jobJSONSlice ! 1]\<rparr>) (w\<lparr>server := r\<rparr>)
                else WaitingToSend (jobJSONSlice ! 1) q (w\<lparr>server := r\<rparr>))))"

text \<open>
  The loop, as a call: \<open>None\<close> is the call that never returns. A dispatcher that waits
  goes on waiting, since in this model nothing else acts on the state.
\<close>

partial_function (option) Run_loop :: "Queue \<Rightarrow> world \<Rightarrow> unit outcome option" where
  "Run_loop q w =
     (case Run_body q w of
        NextPass q' w' \<Rightarrow> Run_loop q' w'
      | WaitingForPop q' w' \<Rightarrow> None
      | WaitingToSend v q' w' \<Rightarrow> None
      | DispatchPanics \<Rightarrow> Some Panic)"


text \<open>\<^verbatim>\<open>Run\<close> starts \<^verbatim>\<open>concurrency\<close> workers and enters the loop.\<close>

definition start_workers :: "Queue \<Rightarrow> world \<Rightarrow> world" where
  "start_workers q w = w\<lparr>workers := workers w + unat (concurrency q)\<rparr>"

definition Run :: "Queue \<Rightarrow> world \<Rightarrow> unit outcome option" where
  "Run q w = Run_loop q (start_workers q w)"

text \<open>
  One pass through the body of the loop of \<^verbatim>\<open>work\<close>, which has no condition and no \<^verbatim>\<open>break\<close>
  or \<^verbatim>\<open>return\<close> either: the worker goes on to the next pass with a new state, it waits in
  the receive, or it panics.
\<close>

datatype 'a pass = Continue 'a | Blocked | Panics

text \<open>
  The body of the loop of \<^verbatim>\<open>work\<close>; its parameters are the content of \<^verbatim>\<open>jobChannel\<close> and
  the two callbacks. The receive waits while the channel is empty.
\<close>

definition work_body :: "string list \<Rightarrow> ErrorHandler \<Rightarrow> Processor \<Rightarrow> world \<Rightarrow> (string list \<times> world) pass" where
  "work_body chan handler proc w =
     (case chan of
        [] \<Rightarrow> Blocked
      | jobJSON # rest \<Rightarrow>
          (let id = EncodeToString (bytes jobJSON) in
           case client w of
             None \<Rightarrow> Panics
           | Some c \<Rightarrow>
               (case Get (JOB_STATUS_PREFIX @ id) (server w) of
                  (Inl err, r) \<Rightarrow>
                    Continue (rest,
                      call_errorHandler handler
                        (Wrapped (''Failed to get status of job '' @ id @ '' : '') err) (w\<lparr>server := r\<rparr>))
                | (Inr statusJSON, r) \<Rightarrow>
                    (case Unmarshal statusJSON (Some \<lparr>Code = 0, Progress = 0\<rparr>) of
                       (Some err, status) \<Rightarrow>
                         Continue (rest,
                           call_errorHandler handler
                             (Wrapped (''Failed to unmarshal status of job '' @ id @ '' : '') err)
                             (w\<lparr>server := r\<rparr>))
                     | (None, status) \<Rightarrow>
                         Continue (rest,
                           call_processor proc \<lparr>ID = id, JSON = jobJSON, Status = status\<rparr>
                             (w\<lparr>server := r\<rparr>))))))"

subsection \<open>\<^verbatim>\<open>Job.SetStatus\<close> and \<^verbatim>\<open>Job.GetStatus\<close>\<close>

text \<open>Both return the error together with the job, whose status they may have changed.\<close>

definition SetStatus :: "byte \<Rightarrow> byte \<Rightarrow> Job \<Rightarrow> world \<Rightarrow> error option outcome \<times> Job \<times> world" where
  "SetStatus code progress j w =
     (case Status j of
        None \<Rightarrow> (Panic, j, w)
      | Some s \<Rightarrow>
          (let s' = s\<lparr>Code := code, Progress := progress\<rparr>;
               j' = j\<lparr>Status := Some s'\<rparr>
           in case Marshal s' of
                (statusJSON, Some err) \<Rightarrow> (Return (Some err), j', w)
              | (statusJSON, None) \<Rightarrow>
                  (case client w of
                     None \<Rightarrow> (Panic, j', w)
                   | Some c \<Rightarrow>
                       (case Set (JOB_STATUS_PREFIX @ ID j) statusJSON (server w) of
                          (err, r) \<Rightarrow> (Return err, j', w\<lparr>server := r\<rparr>)))))"

definition GetStatus :: "Job \<Rightarrow> world \<Rightarrow> error option outcome \<times> Job \<times> world" where
  "GetStatus j w =
     (case client w of
        None \<Rightarrow> (Panic, j, w)
      | Some c \<Rightarrow>
          (case Get (JOB_STATUS_PREFIX @ ID j) (server w) of
             (Inl err, r) \<Rightarrow> (Return (Some err), j, w\<lparr>server := r\<rparr>)
           | (Inr dataJSON, r) \<Rightarrow>
               (case Unmarshal dataJSON (Status j) of
                  (err, status) \<Rightarrow> (Return err, j\<lparr>Status := status\<rparr>, w\<lparr>server := r\<rparr>))))"

subsection \<open>A concrete scenario\<close>

text \<open>
  A process whose client has been created, talking to a server with an empty database
  and no failure to come, and a queue named \<^verbatim>\<open>jobs\<close> whose callbacks do nothing. The payload
  is a small JSON object.
\<close>

definition example_connection :: ConnectionOptions where
  "example_connection =
     \<lparr>Addr = ''localhost:6379'', Password = [], DB = 0, MaxRetries = 0, DialTimeout = 0,
      ReadTimeout = 0, WriteTimeout = 0, PoolSize = 10, PoolTimeout = 0, IdleTimeout = 0\<rparr>"

definition example_server :: redis where
  "example_server = \<lparr>db = Map.empty, faults = [], sent = []\<rparr>"

definition example_world :: world where
  "example_world = \<lparr>client = Some example_connection, server = example_server, workers = 0, calls = []\<rparr>"

text \<open>The process before \<^verbatim>\<open>New\<close> has been called, and options for \<^verbatim>\<open>New\<close>.\<close>

definition fresh_world :: world where
  "fresh_world = \<lparr>client = None, server = example_server, workers = 0, calls = []\<rparr>"

definition example_options :: Options where
  "example_options =
     \<lparr>Connection = Some example_connection, Concurrency = 1, QueueName = ''jobs'',
      Processor = (\<lambda>j w. w), ErrorHandler = (\<lambda>e w. w)\<rparr>"

definition example_queue :: "string \<Rightarrow> Queue" where
  "example_queue name =
     \<lparr>jobChannel = [], concurrency = 1, queueName = name,
      processor = (\<lambda>j w. w), errorHandler = (\<lambda>e w. w)\<rparr>"

definition example_payload :: string where
  \<open>example_payload = ''{"task":"resize"}''\<close>

definition example_job :: Job where
  "example_job = \<lparr>ID = ''MFRGG==='', JSON = ''abc'', Status = Some \<lparr>Code = 0, Progress = 0\<rparr>\<rparr>"

text \<open>
  The same process when the next command does not reach the server, and when the reply to
  the one after it is lost.
\<close>

definition failing_world :: world where
  "failing_world = example_world\<lparr>server := example_server\<lparr>faults := [Some (NotDelivered ''i/o timeout'')]\<rparr>\<rparr>"

definition failing_later_world :: world where
  "failing_later_world = example_world\<lparr>server := example_server\<lparr>faults := [None, Some (ReplyLost ''i/o timeout'')]\<rparr>\<rparr>"


text \<open>The key of the status record of a payload, as \<^verbatim>\<open>Enqueue\<close> and \<^verbatim>\<open>work\<close> compute it.\<close>

abbreviation status_key :: "string \<Rightarrow> string" where
  "status_key jobJSON \<equiv> JOB_STATUS_PREFIX @ EncodeToString (bytes jobJSON)"


section \<open>The job identity\<close>

text \<open>
  The bytes of a quantum can be read back from its eight groups, so two sources with the
  same encoding are the same.
\<close>

lemma byte_eqI:
  fixes a b :: byte
  assumes "bit a 0 = bit b 0" "bit a 1 = bit b 1" "bit a 2 = bit b 2" "bit a 3 = bit b 3"
    "bit a 4 = bit b 4" "bit a 5 = bit b 5" "bit a 6 = bit b 6" "bit a 7 = bit b 7"
  shows "a = b"
proof (rule bit_word_eqI)
  fix n assume "n < LENGTH(8)"
  then have "n \<in> {7, 6, 5, 4, 3, 2, 1, 0}"
    by auto
  with assms show "bit a n = bit b n"
    by auto
qed

lemma byte_bit_high: "8 \<le> n \<Longrightarrow> \<not> bit (w::byte) n"
  by (auto dest: bit_imp_le_length)

lemmas bit_shift_simps = bit_or_iff bit_and_iff bit_push_bit_iff bit_drop_bit_eq o_apply

lemma src0: "push_bit 3 (dst0 s0) OR drop_bit 2 (dst1 s0 s1) = s0"
  unfolding dst0_def dst1_def
  by (rule byte_eqI; simp only: bit_shift_simps; simp add: bit_simps byte_bit_high eval_nat_numeral)

lemma src1: "push_bit 6 (dst1 s0 s1) OR push_bit 1 (dst2 s1) OR drop_bit 4 (dst3 s1 s2) = s1"
  unfolding dst1_def dst2_def dst3_def
  by (rule byte_eqI; simp only: bit_shift_simps; simp add: bit_simps byte_bit_high eval_nat_numeral)

lemma src2: "push_bit 4 (dst3 s1 s2) OR drop_bit 1 (dst4 s2 s3) = s2"
  unfolding dst3_def dst4_def
  by (rule byte_eqI; simp only: bit_shift_simps; simp add: bit_simps byte_bit_high eval_nat_numeral)

lemma src3: "push_bit 7 (dst4 s2 s3) OR push_bit 2 (dst5 s3) OR drop_bit 3 (dst6 s3 s4) = s3"
  unfolding dst4_def dst5_def dst6_def
  by (rule byte_eqI; simp only: bit_shift_simps; simp add: bit_simps byte_bit_high eval_nat_numeral)

lemma src4: "push_bit 5 (dst6 s3 s4) OR dst7 s4 = s4"
  unfolding dst6_def dst7_def
  by (rule byte_eqI; simp only: bit_shift_simps; simp add: bit_simps byte_bit_high eval_nat_numeral)

lemma src0_inj: "dst0 a = dst0 a' \<Longrightarrow> dst1 a b = dst1 a' b' \<Longrightarrow> a = a'"
  by (metis src0)

lemma src1_inj: "dst1 a b = dst1 a' b' \<Longrightarrow> dst2 b = dst2 b' \<Longrightarrow> dst3 b c = dst3 b' c' \<Longrightarrow> b = b'"
  by (metis src1)

lemma src2_inj: "dst3 b c = dst3 b' c' \<Longrightarrow> dst4 c d = dst4 c' d' \<Longrightarrow> c = c'"
  by (metis src2)

lemma src3_inj: "dst4 c d = dst4 c' d' \<Longrightarrow> dst5 d = dst5 d' \<Longrightarrow> dst6 d e = dst6 d' e' \<Longrightarrow> d = d'"
  by (metis src3)

lemma src4_inj: "dst6 d e = dst6 d' e' \<Longrightarrow> dst7 e = dst7 e' \<Longrightarrow> e = e'"
  by (metis src4)

lemmas src_inj = src0_inj src1_inj src2_inj src3_inj src4_inj

lemma quintetI: "q AND 0x1F = q \<Longrightarrow> quintet q"
proof -
  assume a: "q AND 0x1F = q"
  have "q AND 0x1F \<le> 0x1F" by (rule word_and_le1)
  with a have "q \<le> 0x1F" by simp
  then have "unat q \<le> unat (0x1F :: byte)" by (simp add: word_le_nat_alt)
  then show ?thesis by (simp add: quintet_def)
qed

lemma quintet_dst [simp]:
  "quintet (dst0 s0)" "quintet (dst1 s0 s1)" "quintet (dst2 s1)" "quintet (dst3 s1 s2)"
  "quintet (dst4 s2 s3)" "quintet (dst5 s3)" "quintet (dst6 s3 s4)" "quintet (dst7 s4)"
  unfolding dst0_def dst1_def dst2_def dst3_def dst4_def dst5_def dst6_def dst7_def
  by (rule quintetI, rule byte_eqI; simp only: bit_shift_simps; simp add: bit_simps byte_bit_high eval_nat_numeral)+

lemma encodeStd_props: "distinct encodeStd" "length encodeStd = 32" "StdPadding \<notin> set encodeStd"
  by (simp_all add: encodeStd_def StdPadding_def)

lemma encode_char_inj: "quintet p \<Longrightarrow> quintet q \<Longrightarrow> encode_char p = encode_char q \<longleftrightarrow> p = q"
  unfolding quintet_def encode_char_def
  by (auto simp: nth_eq_iff_index_eq encodeStd_props word_unat_eq_iff)

lemma encode_char_no_pad: "quintet q \<Longrightarrow> encode_char q \<noteq> StdPadding"
  unfolding quintet_def encode_char_def
  by (metis encodeStd_props(2,3) nth_mem)

lemmas EncodeToString_unfold =
  quantum_def pad_def encode_char_inj encode_char_no_pad encode_char_no_pad [symmetric] numeral_eq_Suc

lemma EncodeToString_inj: "EncodeToString x = EncodeToString y \<Longrightarrow> x = y"
proof (induction x arbitrary: y rule: EncodeToString.induct)
  case (1 s0 s1 s2 s3 s4 src)
  then show ?case
    by (cases y rule: EncodeToString.cases) (auto simp: EncodeToString_unfold dest: src_inj)
next
  case (2 s0 s1 s2 s3)
  then show ?case
    by (cases y rule: EncodeToString.cases) (auto simp: EncodeToString_unfold dest: src_inj)
next
  case (3 s0 s1 s2)
  then show ?case
    by (cases y rule: EncodeToString.cases) (auto simp: EncodeToString_unfold dest: src_inj)
next
  case (4 s0 s1)
  then show ?case
    by (cases y rule: EncodeToString.cases) (auto simp: EncodeToString_unfold dest: src_inj)
next
  case (5 s0)
  then show ?case
    by (cases y rule: EncodeToString.cases) (auto simp: EncodeToString_unfold dest: src_inj)
next
  case 6
  then show ?case
    by (cases y rule: EncodeToString.cases) (auto simp: EncodeToString_unfold)
qed

lemma bytes_inj: "bytes s = bytes t \<Longrightarrow> s = t"
proof -
  have "inj (\<lambda>c. (of_nat (of_char c) :: byte))"
  proof (rule injI)
    fix c d :: char
    assume "(of_nat (of_char c) :: byte) = of_nat (of_char d)"
    then have "unat (of_nat (of_char c) :: byte) = unat (of_nat (of_char d) :: byte)" by simp
    then have "(of_char c :: nat) mod 256 = of_char d mod 256" by (simp add: unat_of_nat)
    then show "c = d" by simp
  qed
  then show "bytes s = bytes t \<Longrightarrow> s = t"
    unfolding bytes_def by (simp add: inj_map_eq_map)
qed

text \<open>The test vectors of RFC 4648, section 10.\<close>

lemma EncodeToString_rfc4648:
  "EncodeToString (bytes []) = []"
  "EncodeToString (bytes ''f'') = ''MY======''"
  "EncodeToString (bytes ''fo'') = ''MZXQ====''"
  "EncodeToString (bytes ''foo'') = ''MZXW6===''"
  "EncodeToString (bytes ''foob'') = ''MZXW6YQ=''"
  "EncodeToString (bytes ''fooba'') = ''MZXW6YTB''"
  "EncodeToString (bytes ''foobar'') = ''MZXW6YTBOI======''"
  by code_simp+

text \<open>
  Claim C2. The job identity is a function of the payload bytes, and it is injective:
  two payloads have the same identity exactly when they are byte-identical.
\<close>

theorem job_identity_injective:
  "EncodeToString (bytes P) = EncodeToString (bytes P') \<longleftrightarrow> P = P'"
  by (auto dest: EncodeToString_inj bytes_inj)

theorem job_identity_injective_witness:
  "EncodeToString (bytes ''abc'') \<noteq> EncodeToString (bytes ''abd'')"
  using job_identity_injective [of "''abc''" "''abd''"] by simp

section \<open>The status record survives \<^verbatim>\<open>Marshal\<close> and \<^verbatim>\<open>Unmarshal\<close>\<close>

lemma of_char_digit_char: "d < 10 \<Longrightarrow> (of_char (digit_char d) :: nat) = 48 + d"
  by (simp add: digit_char_def)

lemma is_digit_digit_char: "d < 10 \<Longrightarrow> is_digit (digit_char d)"
  by (simp add: is_digit_def of_char_digit_char)

lemma digit_value_digit_char: "d < 10 \<Longrightarrow> digit_value (digit_char d) = d"
  by (simp add: digit_value_def of_char_digit_char)

lemma digit_char_zero: "d < 10 \<Longrightarrow> digit_char d = CHR ''0'' \<longleftrightarrow> d = 0"
proof -
  assume d: "d < 10"
  have "digit_char d = CHR ''0'' \<longleftrightarrow> (of_char (digit_char d) :: nat) = of_char (CHR ''0'')"
    by (simp only: of_char_eq_iff)
  also have "\<dots> \<longleftrightarrow> d = 0"
    using d by (simp add: of_char_digit_char)
  finally show ?thesis .
qed

lemma is_digit_word_char: "is_digit c \<Longrightarrow> is_word_char c"
  by (simp add: is_word_char_def)

lemma FormatUint_digits: "list_all is_digit (FormatUint n)"
  by (induction n rule: FormatUint.induct) (subst FormatUint.simps, simp add: is_digit_digit_char)

lemma FormatUint_nonempty: "FormatUint n \<noteq> []"
  by (subst FormatUint.simps) simp

lemma FormatUint_hd: "hd (FormatUint n) = CHR ''0'' \<longleftrightarrow> n = 0"
proof (induction n rule: FormatUint.induct)
  case (1 n)
  show ?case
  proof (cases "n < 10")
    case True
    then show ?thesis by (subst FormatUint.simps) (simp add: digit_char_zero)
  next
    case False
    then have "n div 10 \<noteq> 0" by simp
    with 1 False have "hd (FormatUint (n div 10)) \<noteq> CHR ''0''" by simp
    with False show ?thesis
      by (subst FormatUint.simps) (simp add: FormatUint_nonempty)
  qed
qed

lemma FormatUint_0: "FormatUint 0 = ''0''"
  using digit_char_zero [of 0] by (simp add: FormatUint.simps)

lemma ParseUint_FormatUint: "ParseUint (FormatUint n) = Some n"
proof -
  have "foldl (\<lambda>a c. 10 * a + digit_value c) 0 (FormatUint n) = n"
    by (induction n rule: FormatUint.induct)
       (subst FormatUint.simps, simp add: digit_value_digit_char)
  then show ?thesis
    by (simp add: ParseUint_def FormatUint_digits FormatUint_nonempty)
qed

lemma dropWhile_digits: "list_all is_digit ds \<Longrightarrow> dropWhile is_digit ds = []"
  by (induction ds) simp_all

lemma valid_number_FormatUint: "valid_number (FormatUint n)"
proof (cases "n = 0")
  case True
  then show ?thesis
    by (simp add: FormatUint_0 valid_number_def valid_int_def valid_frac_def)
next
  case False
  obtain d ds where ds: "FormatUint n = d # ds"
    using FormatUint_nonempty [of n] by (cases "FormatUint n") auto
  have dig: "is_digit d" "list_all is_digit ds"
    using FormatUint_digits [of n] by (simp_all add: ds)
  have "d \<noteq> CHR ''0''" using FormatUint_hd [of n] False by (simp add: ds)
  moreover have "d \<noteq> CHR ''-''" using dig(1) by (auto simp: is_digit_def)
  ultimately show ?thesis
    using dig by (simp add: ds valid_number_def valid_int_def valid_frac_def dropWhile_digits)
qed

lemma digits_not_literal:
  "list_all is_digit w \<Longrightarrow> w \<noteq> ''true'' \<and> w \<noteq> ''false'' \<and> w \<noteq> ''null''"
  by (auto simp: is_digit_def)

lemma finish_word_FormatUint: "finish_word (FormatUint n) = Some (TNumber (FormatUint n))"
  using digits_not_literal [OF FormatUint_digits, of n]
  by (simp add: finish_word_def valid_number_FormatUint)

lemma lex_from_word:
  "list_all is_word_char ds \<Longrightarrow> lex_from (InWord w) ts (ds @ rest) = lex_from (InWord (w @ ds)) ts rest"
  by (induction ds arbitrary: w) simp_all

lemma lex_from_number:
  assumes "\<not> is_word_char c"
  shows "lex_from Idle ts (FormatUint n @ c # rest) =
         (case lex_idle (ts @ [TNumber (FormatUint n)]) c of
            None \<Rightarrow> None
          | Some (ts', m') \<Rightarrow> lex_from m' ts' rest)"
proof -
  obtain d ds where ds: "FormatUint n = d # ds"
    using FormatUint_nonempty [of n] by (cases "FormatUint n") auto
  have dig: "is_digit d" "list_all is_digit ds"
    using FormatUint_digits [of n] by (simp_all add: ds)
  have w: "is_word_char d" "list_all is_word_char ds"
    using dig by (auto simp: is_digit_word_char list_all_iff)
  have d: "\<not> is_space d" "d \<noteq> CHR ''{''" "d \<noteq> CHR ''}''" "d \<noteq> CHR ''[''" "d \<noteq> CHR '']''"
    "d \<noteq> CHR '':''" "d \<noteq> CHR '',''" "d \<noteq> CHR 0x22"
    using dig(1) by (auto simp: is_digit_def is_space_def)
  have "lex_from Idle ts (FormatUint n @ c # rest) = lex_from (InWord [d]) ts (ds @ c # rest)"
    using d w(1) by (simp add: ds lex_idle_def)
  also have "\<dots> = lex_from (InWord (d # ds)) ts (c # rest)"
    using w(2) by (simp add: lex_from_word)
  also have "\<dots> = (case lex_idle (ts @ [TNumber (FormatUint n)]) c of
            None \<Rightarrow> None
          | Some (ts', m') \<Rightarrow> lex_from m' ts' rest)"
    using assms finish_word_FormatUint [of n] by (simp add: ds)
  finally show ?thesis .
qed

lemma lex_Marshal:
  \<open>lex (fst (Marshal v)) =
     Some [LBrace, TString ''Code'', Colon, TNumber (FormatUint (unat (Code v))), Comma,
           TString ''Progress'', Colon, TNumber (FormatUint (unat (Progress v))), RBrace]\<close>
proof -
  have c: "\<not> is_word_char (CHR '','')" "\<not> is_word_char (CHR ''}'')"
    by (simp_all add: is_word_char_def is_digit_def is_letter_def)
  show ?thesis
    by (simp add: lex_def Marshal_def lex_idle_def is_space_def is_word_char_def is_digit_def
        is_letter_def lex_from_number [OF c(1)] lex_from_number [OF c(2)])
qed

lemma parse_Marshal:
  \<open>parse_json (fst (Marshal v)) =
     Some (JObject [(''Code'', JNumber (FormatUint (unat (Code v)))),
                    (''Progress'', JNumber (FormatUint (unat (Progress v))))])\<close>
  by (simp add: parse_json_def lex_Marshal)

lemma store_uint8_FormatUint: "store_uint8 (JNumber (FormatUint (unat b))) old = (None, b)"
proof -
  have "unat b < 256" using unsigned_less [of b] by simp
  then show ?thesis by (simp add: store_uint8_def ParseUint_FormatUint)
qed

lemma Unmarshal_Marshal: "Unmarshal (fst (Marshal v)) (Some old) = (None, Some v)"
  by (simp add: Unmarshal_def parse_Marshal store_value_def store_uint8_FormatUint saveError_def)


lemma Unmarshal_examples:
  \<open>Unmarshal ''{"code":7,"PROGRESS":8,"other":[1,2]}'' (Some \<lparr>Code = 0, Progress = 0\<rparr>)
     = (None, Some \<lparr>Code = 7, Progress = 8\<rparr>)\<close>
  \<open>Unmarshal ''{"Code":256,"Progress":8}'' (Some \<lparr>Code = 1, Progress = 0\<rparr>)
     = (Some UnmarshalTypeError, Some \<lparr>Code = 1, Progress = 8\<rparr>)\<close>
  \<open>Unmarshal ''{"Code":"1"}'' (Some \<lparr>Code = 1, Progress = 2\<rparr>)
     = (Some UnmarshalTypeError, Some \<lparr>Code = 1, Progress = 2\<rparr>)\<close>
  \<open>Unmarshal ''null'' (Some \<lparr>Code = 1, Progress = 2\<rparr>) = (None, Some \<lparr>Code = 1, Progress = 2\<rparr>)\<close>
  \<open>Unmarshal ''[]'' (Some \<lparr>Code = 1, Progress = 2\<rparr>)
     = (Some UnmarshalTypeError, Some \<lparr>Code = 1, Progress = 2\<rparr>)\<close>
  \<open>Unmarshal ''{}'' None = (Some InvalidUnmarshalError, None)\<close>
  \<open>Unmarshal ''{'' None = (Some SyntaxError, None)\<close>
  by code_simp+

section \<open>The server commands\<close>

lemma roundtrip_simps [simp]:
  "fst (roundtrip cmd r) = next_fault r"
  "db (snd (roundtrip cmd r)) = db r"
  "sent (snd (roundtrip cmd r)) = sent r @ [cmd]"
  "faults (snd (roundtrip cmd r)) = drop 1 (faults r)"
  by (simp_all add: roundtrip_def)

lemma Set_sent [simp]: "sent (snd (Set key v r)) = sent r @ [SET key v]"
  by (simp add: Set_def roundtrip_def split: option.splits fault.splits)

lemma Set_result: "fst (Set key v r) = map_option fault_error (next_fault r)"
  by (simp add: Set_def roundtrip_def split: option.splits fault.splits)

lemma Set_db:
  "db (snd (Set key v r)) =
     (case next_fault r of
        Some (NotDelivered e) \<Rightarrow> db r
      | _ \<Rightarrow> (db r)(key \<mapsto> RString v))"
  by (simp add: Set_def set_key_def roundtrip_def split: option.splits fault.splits)

lemma Get_sent [simp]: "sent (snd (Get key r)) = sent r @ [GET key]"
  by (simp add: Get_def roundtrip_def split: option.splits rvalue.splits)

lemma Get_db [simp]: "db (snd (Get key r)) = db r"
  by (simp add: Get_def roundtrip_def split: option.splits rvalue.splits)

lemma Get_result:
  "fst (Get key r) =
     (case next_fault r of
        Some f \<Rightarrow> Inl (fault_error f)
      | None \<Rightarrow>
          (case db r key of
             None \<Rightarrow> Inl redis_Nil
           | Some (RString x) \<Rightarrow> Inr x
           | Some (RList xs) \<Rightarrow> Inl WRONGTYPE))"
  by (simp add: Get_def roundtrip_def split: option.splits rvalue.splits)

lemma RPush_sent [simp]: "sent (snd (RPush key v r)) = sent r @ [RPUSH key v]"
  by (simp add: RPush_def roundtrip_def split: option.splits fault.splits)

lemma RPush_ok:
  "fst (RPush key v r) = Inr n \<Longrightarrow>
   \<exists>xs. (db r key = None \<and> xs = [] \<or> db r key = Some (RList xs)) \<and>
        db (snd (RPush key v r)) = (db r)(key \<mapsto> RList (xs @ [v])) \<and> n = int (length xs) + 1"
  by (auto simp: RPush_def rpush_def roundtrip_def split: option.splits rvalue.splits fault.splits)

lemma Marshal_zero: \<open>Marshal \<lparr>Code = 0, Progress = 0\<rparr> = (''{"Code":0,"Progress":0}'', None)\<close>
  by (simp add: Marshal_def FormatUint_0)

section \<open>The functions of \<^verbatim>\<open>goq.go\<close> with the client in place\<close>

lemma Enqueue_unfold:
  "client w = Some c \<Longrightarrow>
   Enqueue q jobJSON w =
     (case fst (RPush (queueName q) jobJSON (server w)) of
        Inl err \<Rightarrow> (Return ([], Some err), w\<lparr>server := snd (RPush (queueName q) jobJSON (server w))\<rparr>)
      | Inr n \<Rightarrow>
          (case fst (Set (JOB_STATUS_PREFIX @ EncodeToString (bytes jobJSON))
                       (fst (Marshal \<lparr>Code = 0, Progress = 0\<rparr>))
                       (snd (RPush (queueName q) jobJSON (server w)))) of
             Some err \<Rightarrow>
               (Return ([], Some err),
                w\<lparr>server := snd (Set (JOB_STATUS_PREFIX @ EncodeToString (bytes jobJSON))
                       (fst (Marshal \<lparr>Code = 0, Progress = 0\<rparr>))
                       (snd (RPush (queueName q) jobJSON (server w))))\<rparr>)
           | None \<Rightarrow>
               (Return (EncodeToString (bytes jobJSON), None),
                w\<lparr>server := snd (Set (JOB_STATUS_PREFIX @ EncodeToString (bytes jobJSON))
                       (fst (Marshal \<lparr>Code = 0, Progress = 0\<rparr>))
                       (snd (RPush (queueName q) jobJSON (server w))))\<rparr>)))"
  by (simp add: Enqueue_def Marshal_def Let_def split: prod.splits sum.splits option.splits)

lemma work_body_unfold:
  "client w = Some c \<Longrightarrow>
   work_body (jobJSON # rest) handler proc w =
     (case fst (Get (JOB_STATUS_PREFIX @ EncodeToString (bytes jobJSON)) (server w)) of
        Inl err \<Rightarrow>
          Continue (rest,
            call_errorHandler handler
              (Wrapped (''Failed to get status of job '' @ EncodeToString (bytes jobJSON) @ '' : '') err)
              (w\<lparr>server := snd (Get (JOB_STATUS_PREFIX @ EncodeToString (bytes jobJSON)) (server w))\<rparr>))
      | Inr statusJSON \<Rightarrow>
          (case fst (Unmarshal statusJSON (Some \<lparr>Code = 0, Progress = 0\<rparr>)) of
             Some err \<Rightarrow>
               Continue (rest,
                 call_errorHandler handler
                   (Wrapped (''Failed to unmarshal status of job '' @ EncodeToString (bytes jobJSON) @ '' : '') err)
                   (w\<lparr>server := snd (Get (JOB_STATUS_PREFIX @ EncodeToString (bytes jobJSON)) (server w))\<rparr>))
           | None \<Rightarrow>
               Continue (rest,
                 call_processor proc
                   \<lparr>ID = EncodeToString (bytes jobJSON), JSON = jobJSON,
                    Status = snd (Unmarshal statusJSON (Some \<lparr>Code = 0, Progress = 0\<rparr>))\<rparr>
                   (w\<lparr>server := snd (Get (JOB_STATUS_PREFIX @ EncodeToString (bytes jobJSON)) (server w))\<rparr>))))"
  by (simp add: work_body_def Let_def split: prod.splits sum.splits option.splits)

lemma SetStatus_unfold:
  "Status j = Some s \<Longrightarrow> client w = Some c \<Longrightarrow>
   SetStatus code progress j w =
     (Return (fst (Set (JOB_STATUS_PREFIX @ ID j) (fst (Marshal \<lparr>Code = code, Progress = progress\<rparr>)) (server w))),
      j\<lparr>Status := Some \<lparr>Code = code, Progress = progress\<rparr>\<rparr>,
      w\<lparr>server := snd (Set (JOB_STATUS_PREFIX @ ID j) (fst (Marshal \<lparr>Code = code, Progress = progress\<rparr>)) (server w))\<rparr>)"
  by (simp add: SetStatus_def Marshal_def Let_def split: prod.splits)

lemma GetStatus_unfold:
  "client w = Some c \<Longrightarrow>
   GetStatus j w =
     (case fst (Get (JOB_STATUS_PREFIX @ ID j) (server w)) of
        Inl err \<Rightarrow> (Return (Some err), j, w\<lparr>server := snd (Get (JOB_STATUS_PREFIX @ ID j) (server w))\<rparr>)
      | Inr dataJSON \<Rightarrow>
          (Return (fst (Unmarshal dataJSON (Status j))),
           j\<lparr>Status := snd (Unmarshal dataJSON (Status j))\<rparr>,
           w\<lparr>server := snd (Get (JOB_STATUS_PREFIX @ ID j) (server w))\<rparr>))"
  by (simp add: GetStatus_def split: prod.splits sum.splits)

lemma Enqueue_success:
  assumes "Enqueue q jobJSON w = (Return (jid, None), w')"
  shows "jid = EncodeToString (bytes jobJSON)"
    and "\<exists>n. fst (RPush (queueName q) jobJSON (server w)) = Inr n"
    and "fst (Set (JOB_STATUS_PREFIX @ jid) (fst (Marshal \<lparr>Code = 0, Progress = 0\<rparr>))
               (snd (RPush (queueName q) jobJSON (server w)))) = None"
    and "w' = w\<lparr>server := snd (Set (JOB_STATUS_PREFIX @ jid) (fst (Marshal \<lparr>Code = 0, Progress = 0\<rparr>))
               (snd (RPush (queueName q) jobJSON (server w))))\<rparr>"
  using assms
  by (auto simp: Enqueue_def Marshal_zero Let_def split: option.splits prod.splits sum.splits)

lemma id_abc: "EncodeToString (bytes ''abc'') = ''MFRGG===''"
  by code_simp

lemma id_example: "EncodeToString (bytes example_payload) = ''PMRHIYLTNMRDUITSMVZWS6TFEJ6Q====''"
  by code_simp












lemmas example_defs = example_job_def failing_world_def example_world_def fresh_world_def example_server_def example_queue_def example_connection_def

lemma New_example: "New example_options fresh_world = (Return (example_queue ''jobs''), example_world)"
  by (simp add: New_def example_options_def example_defs)

lemmas eval_defs = Let_def WRONGTYPE_def JOB_STATUS_PREFIX_def RPush_def LLen_def Get_def Set_def BLPop_def
  rpush_def set_key_def blpop_def roundtrip_def next_fault_def

section \<open>The claims\<close>

text \<open>
  Claim C1, as amended. When the name of the queue is not the status key of the payload,
  a successful \<^verbatim>\<open>Enqueue\<close> returns the identity of the payload, leaves the list of the
  queue as it was with the payload appended at the tail (so its length has grown by
  one), and leaves under the status key the record with code \<open>0\<close> and progress \<open>0\<close>, which
  \<^verbatim>\<open>Unmarshal\<close> reads back as such.
\<close>

theorem Enqueue_appends_and_initialises:
  assumes "Enqueue q jobJSON w = (Return (jid, None), w')"
      and "queueName q \<noteq> JOB_STATUS_PREFIX @ EncodeToString (bytes jobJSON)"
  shows "jid = EncodeToString (bytes jobJSON)
       \<and> (\<exists>xs. (db (server w) (queueName q) = None \<and> xs = [] \<or> db (server w) (queueName q) = Some (RList xs))
              \<and> db (server w') (queueName q) = Some (RList (xs @ [jobJSON])))
       \<and> db (server w') (JOB_STATUS_PREFIX @ jid) = Some (RString (fst (Marshal \<lparr>Code = 0, Progress = 0\<rparr>)))
       \<and> Unmarshal (fst (Marshal \<lparr>Code = 0, Progress = 0\<rparr>)) (Some old) = (None, Some \<lparr>Code = 0, Progress = 0\<rparr>)"
proof -
  note E = Enqueue_success [OF assms(1)]
  let ?r = "snd (RPush (queueName q) jobJSON (server w))"
  from E(2) obtain n where n: "fst (RPush (queueName q) jobJSON (server w)) = Inr n" ..
  from RPush_ok [OF n] obtain xs where
    xs: "db (server w) (queueName q) = None \<and> xs = [] \<or> db (server w) (queueName q) = Some (RList xs)"
    and r: "db ?r = (db (server w))(queueName q \<mapsto> RList (xs @ [jobJSON]))"
    by blast
  from E(3) have nf: "next_fault ?r = None" by (simp add: Set_result)
  have "db (server w') (queueName q) = Some (RList (xs @ [jobJSON]))"
    using assms(2) by (simp add: E(4) E(1) Set_db nf r)
  moreover have "db (server w') (JOB_STATUS_PREFIX @ jid) = Some (RString (fst (Marshal \<lparr>Code = 0, Progress = 0\<rparr>)))"
    by (simp add: E(4) Set_db nf)
  ultimately show ?thesis
    using xs E(1) by (auto simp: Unmarshal_Marshal)
qed

theorem Enqueue_appends_and_initialises_witness:
  \<open>fst (Enqueue (example_queue ''jobs'') example_payload example_world)
     = Return (''PMRHIYLTNMRDUITSMVZWS6TFEJ6Q===='', None)
   \<and> db (server (snd (Enqueue (example_queue ''jobs'') example_payload example_world))) ''jobs''
     = Some (RList [example_payload])
   \<and> db (server (snd (Enqueue (example_queue ''jobs'') example_payload example_world)))
        ''goq:queue:job:status:PMRHIYLTNMRDUITSMVZWS6TFEJ6Q====''
     = Some (RString ''{"Code":0,"Progress":0}'')\<close>
proof -
  let ?E = "Enqueue (example_queue ''jobs'') example_payload example_world"
  have e: "fst ?E = Return (''PMRHIYLTNMRDUITSMVZWS6TFEJ6Q===='', None)"
    by (simp add: Enqueue_def id_example Marshal_zero eval_defs example_defs)
  then have h: "?E = (Return (''PMRHIYLTNMRDUITSMVZWS6TFEJ6Q===='', None), snd ?E)"
    by (metis prod.collapse)
  have n: "queueName (example_queue ''jobs'') \<noteq> JOB_STATUS_PREFIX @ EncodeToString (bytes example_payload)"
    by (simp add: example_queue_def JOB_STATUS_PREFIX_def)
  have d: "db (server example_world) (queueName (example_queue ''jobs'')) = None"
    by (simp add: example_world_def example_server_def)
  note T = Enqueue_appends_and_initialises [OF h n, of "\<lparr>Code = 7, Progress = 7\<rparr>"]
  from T d have "db (server (snd ?E)) (queueName (example_queue ''jobs'')) = Some (RList [example_payload])"
    by auto
  then have A: "db (server (snd ?E)) ''jobs'' = Some (RList [example_payload])"
    by (simp add: example_queue_def)
  from T have "db (server (snd ?E)) (JOB_STATUS_PREFIX @ ''PMRHIYLTNMRDUITSMVZWS6TFEJ6Q===='')
      = Some (RString (fst (Marshal \<lparr>Code = 0, Progress = 0\<rparr>)))"
    by blast
  then have B: \<open>db (server (snd ?E)) ''goq:queue:job:status:PMRHIYLTNMRDUITSMVZWS6TFEJ6Q====''
      = Some (RString ''{"Code":0,"Progress":0}'')\<close>
    by (simp add: Marshal_zero JOB_STATUS_PREFIX_def)
  from e A B show ?thesis by blast
qed

text \<open>
  Claim C1 as stated fails when the queue is named like the status key of the payload:
  the database is one key space, so the \<^verbatim>\<open>SET\<close> of the status replaces the list that the
  \<^verbatim>\<open>RPUSH\<close> has just created. \<^verbatim>\<open>Enqueue\<close> succeeds, the key holds no list, and \<^verbatim>\<open>QueueStatus\<close>
  reports an error instead of the length \<open>1\<close>.
\<close>

theorem Enqueue_status_key_is_queue_name_counterexample:
  \<open>fst (Enqueue (example_queue ''goq:queue:job:status:MFRGG==='') ''abc'' example_world)
     = Return (''MFRGG==='', None)
   \<and> db (server example_world) ''goq:queue:job:status:MFRGG==='' = None
   \<and> db (server (snd (Enqueue (example_queue ''goq:queue:job:status:MFRGG==='') ''abc'' example_world)))
        ''goq:queue:job:status:MFRGG===''
     = Some (RString ''{"Code":0,"Progress":0}'')
   \<and> fst (QueueStatus (example_queue ''goq:queue:job:status:MFRGG==='')
            (snd (Enqueue (example_queue ''goq:queue:job:status:MFRGG==='') ''abc'' example_world)))
     = (None, Some WRONGTYPE)\<close>
  by (simp add: Enqueue_def QueueStatus_def id_abc Marshal_zero eval_defs example_defs)

text \<open>
  Claim C3. After a successful \<^verbatim>\<open>SetStatus(code, progress)\<close>, \<^verbatim>\<open>GetStatus\<close> on the job leaves its
  status equal to the record of \<open>code\<close> and \<open>progress\<close>, and returns no error unless its own
  round trip fails. The record does come back from the store: \<^verbatim>\<open>GetStatus\<close> on any job
  value with the same identity, whatever status it held, reads the same record.
\<close>

theorem SetStatus_then_GetStatus:
  assumes "SetStatus code progress j w = (Return None, j', w')"
  shows "Status (fst (snd (GetStatus j' w'))) = Some \<lparr>Code = code, Progress = progress\<rparr>
       \<and> (next_fault (server w') = None \<longrightarrow> fst (GetStatus j' w') = Return None)
       \<and> (\<forall>k old. ID k = ID j \<and> Status k = Some old \<and> next_fault (server w') = None \<longrightarrow>
             fst (GetStatus k w') = Return None
           \<and> Status (fst (snd (GetStatus k w'))) = Some \<lparr>Code = code, Progress = progress\<rparr>)"
proof -
  from assms obtain s c where
    s: "Status j = Some s" and c: "client w = Some c"
    by (auto simp: SetStatus_def Marshal_def Let_def split: option.splits prod.splits)
  let ?s' = "\<lparr>Code = code, Progress = progress\<rparr>"
  let ?key = "JOB_STATUS_PREFIX @ ID j"
  from assms have
    j': "j' = j\<lparr>Status := Some ?s'\<rparr>" and
    w': "w' = w\<lparr>server := snd (Set ?key (fst (Marshal ?s')) (server w))\<rparr>" and
    ok: "fst (Set ?key (fst (Marshal ?s')) (server w)) = None"
    by (simp_all add: SetStatus_unfold [OF s c])
  from ok have nf: "next_fault (server w) = None" by (simp add: Set_result)
  have stored: "db (server w') ?key = Some (RString (fst (Marshal ?s')))"
    by (simp add: w' Set_db nf)
  have cl: "client w' = Some c" by (simp add: w' c)
  have read: "fst (GetStatus k w') = Return None
      \<and> Status (fst (snd (GetStatus k w'))) = Some ?s'"
    if "ID k = ID j" "Status k = Some old" "next_fault (server w') = None" for k old
  proof -
    from that(1,3) have "fst (Get (JOB_STATUS_PREFIX @ ID k) (server w')) = Inr (fst (Marshal ?s'))"
      by (simp add: Get_result stored)
    with that(2) show ?thesis
      by (simp add: GetStatus_unfold [OF cl] Unmarshal_Marshal)
  qed
  have kept: "Status (fst (snd (GetStatus j' w'))) = Some ?s'"
  proof (cases "next_fault (server w')")
    case None
    with read [of j' ?s'] show ?thesis by (simp add: j')
  next
    case (Some e)
    then have "fst (Get ?key (server w')) = Inl (fault_error e)"
      by (simp add: Get_result)
    then show ?thesis
      by (simp add: GetStatus_unfold [OF cl] j')
  qed
  from read [of j' ?s'] have "next_fault (server w') = None \<longrightarrow> fst (GetStatus j' w') = Return None"
    by (simp add: j')
  with kept read show ?thesis by blast
qed

theorem SetStatus_then_GetStatus_witness:
  "fst (SetStatus 1 100 example_job example_world) = Return None
   \<and> fst (GetStatus (fst (snd (SetStatus 1 100 example_job example_world)))
                     (snd (snd (SetStatus 1 100 example_job example_world)))) = Return None
   \<and> Status (fst (snd (GetStatus (fst (snd (SetStatus 1 100 example_job example_world)))
                                  (snd (snd (SetStatus 1 100 example_job example_world))))))
       = Some \<lparr>Code = 1, Progress = 100\<rparr>"
proof -
  let ?S = "SetStatus 1 100 example_job example_world"
  have e: "fst ?S = Return None"
    by (simp add: SetStatus_def Marshal_def eval_defs example_defs)
  then have h: "?S = (Return None, fst (snd ?S), snd (snd ?S))"
    by (metis prod.collapse)
  have n: "next_fault (server (snd (snd ?S))) = None"
    by (simp add: SetStatus_def Marshal_def eval_defs example_defs)
  from SetStatus_then_GetStatus [OF h] n e show ?thesis by simp
qed



text \<open>
  Claim C5. \<^verbatim>\<open>Enqueue\<close> returns an error exactly when the \<^verbatim>\<open>RPUSH\<close> fails or the \<^verbatim>\<open>SET\<close> of the
  initial status fails (either is sent only when the client exists). When the push has succeeded and the
  \<^verbatim>\<open>SET\<close> fails, \<^verbatim>\<open>Enqueue\<close> returns the error and does not undo the push: provided the
  queue is not named like the status key of the payload, the payload is still the last
  element of the list.
\<close>

theorem Enqueue_error_iff_push_or_set_fails:
  "((\<exists>err. fst (Enqueue q jobJSON w) = Return ([], Some err)) \<longleftrightarrow>
      client w \<noteq> None
      \<and> ((\<exists>err. fst (RPush (queueName q) jobJSON (server w)) = Inl err)
         \<or> (\<exists>err. fst (Set (status_key jobJSON) (fst (Marshal \<lparr>Code = 0, Progress = 0\<rparr>))
                         (snd (RPush (queueName q) jobJSON (server w)))) = Some err)))
   \<and> (client w \<noteq> None
      \<and> (\<exists>n. fst (RPush (queueName q) jobJSON (server w)) = Inr n)
      \<and> (\<exists>err. fst (Set (status_key jobJSON) (fst (Marshal \<lparr>Code = 0, Progress = 0\<rparr>))
                      (snd (RPush (queueName q) jobJSON (server w)))) = Some err)
      \<and> queueName q \<noteq> status_key jobJSON
      \<longrightarrow> (\<exists>err. fst (Enqueue q jobJSON w) = Return ([], Some err))
        \<and> (\<exists>xs. db (server (snd (Enqueue q jobJSON w))) (queueName q) = Some (RList (xs @ [jobJSON]))))"
proof (cases "client w")
  case None
  then show ?thesis by (simp add: Enqueue_def)
next
  case (Some c)
  let ?push = "RPush (queueName q) jobJSON (server w)"
  let ?set = "Set (status_key jobJSON) (fst (Marshal \<lparr>Code = 0, Progress = 0\<rparr>)) (snd ?push)"
  note E = Enqueue_unfold [OF Some, of q jobJSON]
  have kept: "\<exists>xs. db (snd ?set) (queueName q) = Some (RList (xs @ [jobJSON]))"
    if n: "fst ?push = Inr n" and k: "queueName q \<noteq> status_key jobJSON" for n
  proof -
    from k have "db (snd ?set) (queueName q) = db (snd ?push) (queueName q)"
      by (simp add: Set_db split: option.splits fault.splits)
    with RPush_ok [OF n] show ?thesis by auto
  qed
  show ?thesis
  proof (cases "fst ?push")
    case (Inl err)
    then show ?thesis by (simp add: E Some)
  next
    case (Inr n)
    then show ?thesis
      using kept [OF Inr] by (cases "fst ?set") (auto simp: E Some)
  qed
qed

theorem Enqueue_error_iff_push_or_set_fails_witness:
  "fst (Enqueue (example_queue ''jobs'') ''abc'' failing_later_world)
     = Return ([], Some (RedisError ''i/o timeout''))
   \<and> (\<exists>xs. db (server (snd (Enqueue (example_queue ''jobs'') ''abc'' failing_later_world)))
              (queueName (example_queue ''jobs'')) = Some (RList (xs @ [''abc''])))"
proof -
  have h: "client failing_later_world \<noteq> None"
    by (simp add: failing_later_world_def example_defs)
  have p: "\<exists>n. fst (RPush (queueName (example_queue ''jobs'')) ''abc'' (server failing_later_world)) = Inr n"
    by (simp add: eval_defs failing_later_world_def example_defs)
  have s: "\<exists>err. fst (Set (status_key ''abc'') (fst (Marshal \<lparr>Code = 0, Progress = 0\<rparr>))
      (snd (RPush (queueName (example_queue ''jobs'')) ''abc'' (server failing_later_world)))) = Some err"
    by (simp add: eval_defs failing_later_world_def example_defs)
  have k: "queueName (example_queue ''jobs'') \<noteq> status_key ''abc''"
    by (simp add: id_abc JOB_STATUS_PREFIX_def example_defs)
  have e: "fst (Enqueue (example_queue ''jobs'') ''abc'' failing_later_world)
     = Return ([], Some (RedisError ''i/o timeout''))"
    by (simp add: Enqueue_def id_abc Marshal_zero eval_defs failing_later_world_def example_defs)
  from Enqueue_error_iff_push_or_set_fails [of "example_queue ''jobs''" "''abc''" failing_later_world] h p s k e
  show ?thesis by blast
qed

text \<open>
  Claim C5, as first stated, has the payload remain on the list whenever the \<^verbatim>\<open>SET\<close> of the
  initial status fails. The list and the status records are keys of one database, and a
  \<^verbatim>\<open>SET\<close> whose reply is lost has been executed. For the queue named
  \<^verbatim>\<open>goq:queue:job:status:MFRGG===\<close>, the status key of the payload \<^verbatim>\<open>abc\<close>: the push succeeds,
  the \<^verbatim>\<open>SET\<close> fails at the client with a timeout, \<^verbatim>\<open>Enqueue\<close> returns that error, and the key of
  the queue holds the status record, no list.
\<close>

theorem Enqueue_failed_set_replaces_list_counterexample:
  \<open>fst (RPush (queueName (example_queue ''goq:queue:job:status:MFRGG==='')) ''abc'' (server failing_later_world))
     = Inr 1
   \<and> fst (Set (status_key ''abc'') (fst (Marshal \<lparr>Code = 0, Progress = 0\<rparr>))
        (snd (RPush (queueName (example_queue ''goq:queue:job:status:MFRGG==='')) ''abc'' (server failing_later_world))))
     = Some (RedisError ''i/o timeout'')
   \<and> fst (Enqueue (example_queue ''goq:queue:job:status:MFRGG==='') ''abc'' failing_later_world)
     = Return ([], Some (RedisError ''i/o timeout''))
   \<and> db (server (snd (Enqueue (example_queue ''goq:queue:job:status:MFRGG==='') ''abc'' failing_later_world)))
        (queueName (example_queue ''goq:queue:job:status:MFRGG===''))
     = Some (RString ''{"Code":0,"Progress":0}'')
   \<and> (\<forall>xs. db (server (snd (Enqueue (example_queue ''goq:queue:job:status:MFRGG==='') ''abc'' failing_later_world)))
        (queueName (example_queue ''goq:queue:job:status:MFRGG===''))
     \<noteq> Some (RList (xs @ [''abc''])))\<close>
  by (simp add: Enqueue_def id_abc Marshal_zero eval_defs failing_later_world_def example_defs)



text \<open>
  Claim C7. The status key of a payload is the text \<^verbatim>\<open>goq:queue:job:status:\<close> followed by the
  base32 encoding of the payload bytes, and with the client in place it is the key in
  every command about the status: the \<^verbatim>\<open>SET\<close> that \<^verbatim>\<open>Enqueue\<close> sends after the push, the \<^verbatim>\<open>GET\<close> of the worker, which
  hands on a job whose \<^verbatim>\<open>ID\<close> is the encoding, and the \<^verbatim>\<open>SET\<close> and \<^verbatim>\<open>GET\<close> that \<^verbatim>\<open>SetStatus\<close> and
  \<^verbatim>\<open>GetStatus\<close> send for a job with that \<^verbatim>\<open>ID\<close>.
\<close>

theorem status_key_is_prefix_and_identity:
  assumes "client w \<noteq> None"
  shows "JOB_STATUS_PREFIX = ''goq:queue:job:status:''
       \<and> ((\<exists>n. fst (RPush (queueName q) jobJSON (server w)) = Inr n) \<longrightarrow>
            sent (server (snd (Enqueue q jobJSON w))) =
              sent (server w) @ [RPUSH (queueName q) jobJSON,
                                 SET (status_key jobJSON) (fst (Marshal \<lparr>Code = 0, Progress = 0\<rparr>))])
       \<and> (\<exists>w1. sent (server w1) = sent (server w) @ [GET (status_key jobJSON)]
              \<and> ((\<exists>err. work_body (jobJSON # rest) handler proc w =
                     Continue (rest, call_errorHandler handler err w1))
                 \<or> (\<exists>status. work_body (jobJSON # rest) handler proc w =
                     Continue (rest, call_processor proc
                       \<lparr>ID = EncodeToString (bytes jobJSON), JSON = jobJSON, Status = status\<rparr> w1))))
       \<and> (ID j = EncodeToString (bytes jobJSON) \<and> Status j \<noteq> None \<longrightarrow>
            sent (server (snd (snd (SetStatus code progress j w)))) =
              sent (server w) @ [SET (status_key jobJSON) (fst (Marshal \<lparr>Code = code, Progress = progress\<rparr>))])
       \<and> (ID j = EncodeToString (bytes jobJSON) \<longrightarrow>
            sent (server (snd (snd (GetStatus j w)))) = sent (server w) @ [GET (status_key jobJSON)])"
proof -
  from assms obtain c where c: "client w = Some c" by auto
  have a: "JOB_STATUS_PREFIX = ''goq:queue:job:status:''"
    by (simp add: JOB_STATUS_PREFIX_def)
  have b: "sent (server (snd (Enqueue q jobJSON w))) =
      sent (server w) @ [RPUSH (queueName q) jobJSON,
                         SET (status_key jobJSON) (fst (Marshal \<lparr>Code = 0, Progress = 0\<rparr>))]"
    if "fst (RPush (queueName q) jobJSON (server w)) = Inr n" for n
    using that by (cases "fst (Set (status_key jobJSON) (fst (Marshal \<lparr>Code = 0, Progress = 0\<rparr>))
        (snd (RPush (queueName q) jobJSON (server w))))") (simp_all add: Enqueue_unfold [OF c])
  let ?w1 = "w\<lparr>server := snd (Get (status_key jobJSON) (server w))\<rparr>"
  have "sent (server ?w1) = sent (server w) @ [GET (status_key jobJSON)]"
    by simp
  moreover have "(\<exists>err. work_body (jobJSON # rest) handler proc w =
                     Continue (rest, call_errorHandler handler err ?w1))
                 \<or> (\<exists>status. work_body (jobJSON # rest) handler proc w =
                     Continue (rest, call_processor proc
                       \<lparr>ID = EncodeToString (bytes jobJSON), JSON = jobJSON, Status = status\<rparr> ?w1))"
    by (cases "fst (Get (status_key jobJSON) (server w))")
       (auto simp: work_body_unfold [OF c] split: option.splits)
  ultimately have d: "\<exists>w1. sent (server w1) = sent (server w) @ [GET (status_key jobJSON)]
              \<and> ((\<exists>err. work_body (jobJSON # rest) handler proc w =
                     Continue (rest, call_errorHandler handler err w1))
                 \<or> (\<exists>status. work_body (jobJSON # rest) handler proc w =
                     Continue (rest, call_processor proc
                       \<lparr>ID = EncodeToString (bytes jobJSON), JSON = jobJSON, Status = status\<rparr> w1)))"
    by blast
  have e: "sent (server (snd (snd (SetStatus code progress j w)))) =
      sent (server w) @ [SET (status_key jobJSON) (fst (Marshal \<lparr>Code = code, Progress = progress\<rparr>))]"
    if "ID j = EncodeToString (bytes jobJSON)" "Status j \<noteq> None"
    using that by (auto simp: SetStatus_unfold [OF _ c])
  have f: "sent (server (snd (snd (GetStatus j w)))) = sent (server w) @ [GET (status_key jobJSON)]"
    if "ID j = EncodeToString (bytes jobJSON)"
    using that by (cases "fst (Get (status_key jobJSON) (server w))")
      (simp_all add: GetStatus_unfold [OF c])
  from a b d e f show ?thesis by blast
qed

theorem status_key_is_prefix_and_identity_witness:
  \<open>sent (server (snd (Enqueue (example_queue ''jobs'') ''abc'' example_world))) =
     [RPUSH ''jobs'' ''abc'', SET ''goq:queue:job:status:MFRGG==='' ''{"Code":0,"Progress":0}'']
   \<and> sent (server (snd (snd (SetStatus 1 100 example_job example_world)))) =
     [SET ''goq:queue:job:status:MFRGG==='' ''{"Code":1,"Progress":100}'']
   \<and> sent (server (snd (snd (GetStatus example_job example_world)))) =
     [GET ''goq:queue:job:status:MFRGG===''] \<close>
proof -
  have h: "client example_world \<noteq> None"
    by (simp add: example_defs)
  have p: "\<exists>n. fst (RPush (queueName (example_queue ''jobs'')) ''abc'' (server example_world)) = Inr n"
    by (simp add: eval_defs example_defs)
  have j: "ID example_job = EncodeToString (bytes ''abc'')" "Status example_job \<noteq> None"
    by (simp_all add: id_abc example_defs)
  have m: \<open>fst (Marshal \<lparr>Code = 1, Progress = 100\<rparr>) = ''{"Code":1,"Progress":100}''\<close>
    by code_simp
  have z: "sent (server example_world) = []" "queueName (example_queue ''jobs'') = ''jobs''"
    by (simp_all add: example_defs)
  from status_key_is_prefix_and_identity
    [OF h, of "example_queue ''jobs''" "''abc''" "[]" "\<lambda>e w. w" "\<lambda>j w. w" example_job 1 100] p j
  show ?thesis
    by (simp add: id_abc Marshal_zero m z)
qed

text \<open>
  Claim C8, as amended. When the client exists, \<^verbatim>\<open>QueueStatus\<close> returns what \<^verbatim>\<open>LLEN\<close> on the
  name of the queue gives: the length of the list (\<open>0\<close> for a key that does not exist)
  when the command succeeds, and the error of the command, with no length, when it
  fails. When the client has never been created, it returns the error "no initialized
  client" and no length, and sends nothing.
\<close>

theorem QueueStatus_length_or_no_client:
  "(client w \<noteq> None \<longrightarrow>
      fst (QueueStatus q w) =
        (case fst (LLen (queueName q) (server w)) of
           Inl err \<Rightarrow> (None, Some err)
         | Inr n \<Rightarrow> (Some \<lparr>QueueLength = n\<rparr>, None)))
   \<and> (client w \<noteq> None \<and> next_fault (server w) = None \<and> db (server w) (queueName q) = Some (RList xs) \<longrightarrow>
      fst (QueueStatus q w) = (Some \<lparr>QueueLength = int (length xs)\<rparr>, None))
   \<and> (client w \<noteq> None \<and> next_fault (server w) = None \<and> db (server w) (queueName q) = None \<longrightarrow>
      fst (QueueStatus q w) = (Some \<lparr>QueueLength = 0\<rparr>, None))
   \<and> (client w = None \<longrightarrow>
      QueueStatus q w = ((None, Some (ErrorString ''Failed to queue status: no initialized client'')), w))"
  by (auto simp: QueueStatus_def LLen_def roundtrip_def split: prod.splits sum.splits option.splits)

theorem QueueStatus_length_or_no_client_witness:
  "fst (QueueStatus (example_queue ''jobs'') example_world) = (Some \<lparr>QueueLength = 0\<rparr>, None)
   \<and> fst (QueueStatus (example_queue ''jobs'') (snd (Enqueue (example_queue ''jobs'') ''abc'' example_world)))
       = (Some \<lparr>QueueLength = 1\<rparr>, None)
   \<and> fst (QueueStatus (example_queue ''jobs'') fresh_world)
       = (None, Some (ErrorString ''Failed to queue status: no initialized client''))"
proof -
  let ?q = "example_queue ''jobs''"
  let ?w = "snd (Enqueue ?q ''abc'' example_world)"
  have a: "client example_world \<noteq> None \<and> next_fault (server example_world) = None
      \<and> db (server example_world) (queueName ?q) = None"
    by (simp add: eval_defs example_defs)
  have b: "client ?w \<noteq> None \<and> next_fault (server ?w) = None
      \<and> db (server ?w) (queueName ?q) = Some (RList [''abc''])"
    by (simp add: Enqueue_def id_abc Marshal_zero eval_defs example_defs)
  have c: "client fresh_world = None"
    by (simp add: example_defs)
  from QueueStatus_length_or_no_client [of example_world ?q] a
  have "fst (QueueStatus ?q example_world) = (Some \<lparr>QueueLength = 0\<rparr>, None)" by blast
  moreover from QueueStatus_length_or_no_client [of ?w ?q "[''abc'']"] b
  have "fst (QueueStatus ?q ?w) = (Some \<lparr>QueueLength = int (length [''abc''])\<rparr>, None)" by blast
  then have "fst (QueueStatus ?q ?w) = (Some \<lparr>QueueLength = 1\<rparr>, None)" by simp
  moreover from QueueStatus_length_or_no_client [of fresh_world ?q] c
  have "QueueStatus ?q fresh_world
       = ((None, Some (ErrorString ''Failed to queue status: no initialized client'')), fresh_world)"
    by blast
  then have "fst (QueueStatus ?q fresh_world)
       = (None, Some (ErrorString ''Failed to queue status: no initialized client''))" by simp
  ultimately show ?thesis by blast
qed

text \<open>
  Claim C8 as stated fails when the client exists and the command fails: \<^verbatim>\<open>QueueStatus\<close>
  has a branch for the error of \<^verbatim>\<open>LLEN\<close> and returns it instead of a length. Two cases: the
  round trip fails, and the name of the queue is a key that holds a string.
\<close>

theorem QueueStatus_command_fails_counterexample:
  "client failing_world \<noteq> None
   \<and> fst (QueueStatus (example_queue ''jobs'') failing_world)
       = (None, Some (RedisError ''i/o timeout''))
   \<and> client (snd (Enqueue (example_queue ''goq:queue:job:status:MFRGG==='') ''abc'' example_world)) \<noteq> None
   \<and> fst (QueueStatus (example_queue ''goq:queue:job:status:MFRGG==='')
            (snd (Enqueue (example_queue ''goq:queue:job:status:MFRGG==='') ''abc'' example_world)))
       = (None, Some WRONGTYPE)"
  by (simp add: Enqueue_def QueueStatus_def id_abc Marshal_zero eval_defs example_defs)

text \<open>
  Claim C9. Only \<^verbatim>\<open>QueueStatus\<close> tests the client. While the client has not been created,
  \<^verbatim>\<open>Enqueue\<close>, \<^verbatim>\<open>SetStatus\<close> and \<^verbatim>\<open>GetStatus\<close> (and \<^verbatim>\<open>Run\<close>) end in the panic of a nil pointer
  dereference, where \<^verbatim>\<open>QueueStatus\<close> returns its error.
\<close>

theorem nil_client_panics:
  "client w = None \<Longrightarrow>
     fst (Enqueue q jobJSON w) = Panic
   \<and> fst (SetStatus code progress j w) = Panic
   \<and> fst (GetStatus j w) = Panic
   \<and> Run q w = Some Panic
   \<and> fst (QueueStatus q w) = (None, Some (ErrorString ''Failed to queue status: no initialized client''))"
  by (auto simp: Enqueue_def SetStatus_def GetStatus_def QueueStatus_def Run_def Run_body_def
      start_workers_def Run_loop.simps Marshal_def Let_def split: option.splits)

theorem nil_client_panics_witness:
  "client fresh_world = None
   \<and> fst (Enqueue (example_queue ''jobs'') example_payload fresh_world) = Panic
   \<and> fst (SetStatus 1 100 example_job fresh_world) = Panic
   \<and> fst (GetStatus example_job fresh_world) = Panic
   \<and> fst (QueueStatus (example_queue ''jobs'') fresh_world)
       = (None, Some (ErrorString ''Failed to queue status: no initialized client''))"
proof -
  have h: "client fresh_world = None"
    by (simp add: example_defs)
  from nil_client_panics [OF h, of "example_queue ''jobs''" example_payload 1 100 example_job] h
  show ?thesis by simp
qed

text \<open>
  Claim C10. \<^verbatim>\<open>SetStatus\<close> assigns the fields of the status before it writes to the store.
  Whenever the write fails (it is attempted when the client exists and the job has a
  status to assign to), \<^verbatim>\<open>SetStatus\<close> returns the error of the write and the job holds the
  new code and progress; and whenever \<^verbatim>\<open>SetStatus\<close> returns an error, the job it leaves holds
  the new code and progress.
\<close>

theorem SetStatus_keeps_new_status_on_error:
  "(client w \<noteq> None \<and> Status j \<noteq> None
      \<and> fst (Set (JOB_STATUS_PREFIX @ ID j) (fst (Marshal \<lparr>Code = code, Progress = progress\<rparr>)) (server w))
          = Some err
    \<longrightarrow> fst (SetStatus code progress j w) = Return (Some err)
      \<and> Status (fst (snd (SetStatus code progress j w))) = Some \<lparr>Code = code, Progress = progress\<rparr>)
   \<and> (SetStatus code progress j w = (Return (Some err), j', w')
    \<longrightarrow> Status j' = Some \<lparr>Code = code, Progress = progress\<rparr>)"
proof -
  have a: "fst (SetStatus code progress j w) = Return (Some err)
      \<and> Status (fst (snd (SetStatus code progress j w))) = Some \<lparr>Code = code, Progress = progress\<rparr>"
    if "client w \<noteq> None" "Status j \<noteq> None"
      "fst (Set (JOB_STATUS_PREFIX @ ID j) (fst (Marshal \<lparr>Code = code, Progress = progress\<rparr>)) (server w))
          = Some err"
  proof -
    from that(1,2) obtain c s where "client w = Some c" "Status j = Some s" by auto
    from SetStatus_unfold [OF this(2,1), of code progress] that(3) show ?thesis by simp
  qed
  have b: "Status j' = Some \<lparr>Code = code, Progress = progress\<rparr>"
    if "SetStatus code progress j w = (Return (Some err), j', w')"
    using that
    by (auto simp: SetStatus_def Marshal_def Let_def split: option.splits prod.splits)
  from a b show ?thesis by blast
qed

theorem SetStatus_keeps_new_status_on_error_witness:
  "fst (SetStatus 1 100 example_job failing_world) = Return (Some (RedisError ''i/o timeout''))
   \<and> Status example_job = Some \<lparr>Code = 0, Progress = 0\<rparr>
   \<and> Status (fst (snd (SetStatus 1 100 example_job failing_world))) = Some \<lparr>Code = 1, Progress = 100\<rparr>"
proof -
  have c: "client failing_world \<noteq> None" and s: "Status example_job \<noteq> None"
    and s0: "Status example_job = Some \<lparr>Code = 0, Progress = 0\<rparr>"
    by (simp_all add: example_defs)
  have f: "fst (Set (JOB_STATUS_PREFIX @ ID example_job) (fst (Marshal \<lparr>Code = 1, Progress = 100\<rparr>))
      (server failing_world)) = Some (RedisError ''i/o timeout'')"
    by (simp add: eval_defs example_defs)
  from SetStatus_keeps_new_status_on_error
    [of failing_world example_job 1 100 "RedisError ''i/o timeout''"
        "fst (snd (SetStatus 1 100 example_job failing_world))"
        "snd (snd (SetStatus 1 100 example_job failing_world))"]
    c s f
  have e: "fst (SetStatus 1 100 example_job failing_world) = Return (Some (RedisError ''i/o timeout''))"
    and m: "Status (fst (snd (SetStatus 1 100 example_job failing_world))) = Some \<lparr>Code = 1, Progress = 100\<rparr>"
    by blast+
  from e s0 m show ?thesis by blast
qed

end
